theory Spec2Isabelle
  imports Main "HOL-Library.Word"
begin

section \<open>Status values and the collaborators of AwsEnv\<close>

text \<open>
  The development embeds \<^verbatim>\<open>cloud/aws_env.cc\<close>: the virtual environment that sends each
  file operation to the local POSIX environment, to the S3 object store or to the Kinesis
  log stream. Assertions (\<^verbatim>\<open>assert(...)\<close>) are compiled out, as in a release build
  (\<^verbatim>\<open>NDEBUG\<close>): the model is the code that runs after them.
\<close>

text \<open>\<^verbatim>\<open>rocksdb::Status\<close>: a code with its two message slices.\<close>

datatype Status =
    OK
  | NotFound string string
  | IOError string string
  | NotSupported string string
  | InvalidArgument string
  | TimedOut

fun ok :: "Status \<Rightarrow> bool" where
  "ok OK = True"
| "ok _ = False"

fun IsNotFound :: "Status \<Rightarrow> bool" where
  "IsNotFound (NotFound _ _) = True"
| "IsNotFound _ = False"

fun IsNotSupported :: "Status \<Rightarrow> bool" where
  "IsNotSupported (NotSupported _ _) = True"
| "IsNotSupported _ = False"

text \<open>
  The AWS SDK (external): the error types the code tests for, an error with its message,
  and the requests the code builds. A request is recorded with the fields the code sets.
\<close>

datatype S3Errors =
    NO_SUCH_BUCKET
  | NO_SUCH_KEY
  | RESOURCE_NOT_FOUND
  | ACCESS_DENIED
  | INTERNAL_FAILURE
  | NETWORK_CONNECTION

record AWSError =
  ErrorType :: S3Errors
  Message :: string

text \<open>
  The test that \<^verbatim>\<open>GetChildrenFromS3\<close> and \<^verbatim>\<open>DeletePathInS3\<close> both write out:
  \<^verbatim>\<open>s3err == NO_SUCH_BUCKET || s3err == NO_SUCH_KEY || s3err == RESOURCE_NOT_FOUND\<close>.
\<close>

definition absent_error :: "S3Errors \<Rightarrow> bool" where
  "absent_error s3err =
     (s3err = NO_SUCH_BUCKET \<or> s3err = NO_SUCH_KEY \<or> s3err = RESOURCE_NOT_FOUND)"

datatype S3Request =
    ListObjectsRequest string nat string string
  | GetObjectRequest string string nat nat
  | PutObjectRequest string string string
  | DeleteObjectRequest string string
  | CopyObjectRequest string string string

record ListObjectsResult =
  Contents :: "string list"
  IsTruncated :: bool
  NextMarker :: string

record EnvOptions =
  use_mmap_reads :: bool

text \<open>
  Everything \<^verbatim>\<open>aws_env.cc\<close> calls and does not define is a field of the platform, over
  an outside world \<open>'w\<close> (local filesystem, bucket, stream, clock):
  \<^item> the default POSIX environment \<^verbatim>\<open>posixEnv_\<close> (fields \<open>posix_\<dots>\<close>); an open file is
    its path, read with \<open>posix_Read path offset n\<close> and written with \<open>posix_Append\<close>;
  \<^item> the S3 client \<^verbatim>\<open>s3client_\<close> of the SDK (fields \<open>s3_\<dots>\<close>), called with the fields
    of the request, answering an outcome that is an error (\<open>Inl\<close>) or a result (\<open>Inr\<close>);
  \<^item> the filename classifier \<^verbatim>\<open>IsSstFile\<close>, \<^verbatim>\<open>IsLogFile\<close> and \<^verbatim>\<open>GetBucket\<close>;
  \<^item> the Kinesis side: \<^verbatim>\<open>KinesisSystem::CreateStream\<close>, the tailer's constructor status,
    \<^verbatim>\<open>GetCachePath\<close>, \<^verbatim>\<open>GetCacheDir\<close>, \<^verbatim>\<open>KinesisWritableFile\<close> and the constant
    \<^verbatim>\<open>retry_period_micros\<close>;
  \<^item> \<^verbatim>\<open>S3WritableFile::CreateBucketInS3\<close> and the status of a fresh \<^verbatim>\<open>S3ReadableFile\<close>;
  \<^item> the clock \<^verbatim>\<open>NowMicros\<close> and \<^verbatim>\<open>std::this_thread::sleep_for\<close> (in milliseconds). The
    clock and the retry period are \<^verbatim>\<open>uint64_t\<close> microseconds: 64-bit words, whose sum
    wraps around.
\<close>

record 'w Platform =
  posix_FileExists :: "string \<Rightarrow> 'w \<Rightarrow> Status"
  posix_DeleteFile :: "string \<Rightarrow> 'w \<Rightarrow> Status \<times> 'w"
  posix_RenameFile :: "string \<Rightarrow> string \<Rightarrow> 'w \<Rightarrow> Status \<times> 'w"
  posix_GetChildren :: "string \<Rightarrow> 'w \<Rightarrow> Status \<times> string list"
  posix_NewRandomAccessFile :: "string \<Rightarrow> 'w \<Rightarrow> Status"
  posix_Read :: "string \<Rightarrow> nat \<Rightarrow> nat \<Rightarrow> 'w \<Rightarrow> Status \<times> string"
  posix_NewWritableFile :: "string \<Rightarrow> 'w \<Rightarrow> Status \<times> 'w"
  posix_Append :: "string \<Rightarrow> string \<Rightarrow> 'w \<Rightarrow> Status \<times> 'w"
  posix_GetFileSize :: "string \<Rightarrow> 'w \<Rightarrow> Status \<times> nat"
  s3_ListObjects :: "string \<Rightarrow> nat \<Rightarrow> string \<Rightarrow> string \<Rightarrow> 'w \<Rightarrow> AWSError + ListObjectsResult"
  s3_GetObject :: "string \<Rightarrow> string \<Rightarrow> nat \<Rightarrow> nat \<Rightarrow> 'w \<Rightarrow> AWSError + string"
  s3_PutObject :: "string \<Rightarrow> string \<Rightarrow> string \<Rightarrow> 'w \<Rightarrow> (AWSError + unit) \<times> 'w"
  s3_DeleteObject :: "string \<Rightarrow> string \<Rightarrow> 'w \<Rightarrow> (AWSError + unit) \<times> 'w"
  s3_CopyObject :: "string \<Rightarrow> string \<Rightarrow> string \<Rightarrow> 'w \<Rightarrow> (AWSError + unit) \<times> 'w"
  IsSstFile :: "string \<Rightarrow> bool"
  IsLogFile :: "string \<Rightarrow> bool"
  GetBucket :: "string \<Rightarrow> string"
  CreateBucketInS3 :: "string \<Rightarrow> 'w \<Rightarrow> Status \<times> 'w"
  make_kinesis_client :: "'w \<Rightarrow> bool"
  CreateStream :: "string \<Rightarrow> 'w \<Rightarrow> Status \<times> 'w"
  KinesisSystem_status :: "'w \<Rightarrow> Status"
  GetCacheDir :: string
  GetCachePath :: "string \<Rightarrow> string \<Rightarrow> string"
  KinesisWritableFile_status :: "string \<Rightarrow> 'w \<Rightarrow> Status"
  KinesisWritableFile_LogDelete :: "string \<Rightarrow> 'w \<Rightarrow> Status \<times> 'w"
  KinesisWritableFile_Append :: "string \<Rightarrow> string \<Rightarrow> 'w \<Rightarrow> Status \<times> 'w"
  KinesisWritableFile_Close :: "string \<Rightarrow> 'w \<Rightarrow> Status \<times> 'w"
  S3ReadableFile_status :: "string \<Rightarrow> 'w \<Rightarrow> Status"
  retry_period_micros :: "64 word"
  NowMicros :: "'w \<Rightarrow> 64 word"
  sleep_for :: "nat \<Rightarrow> 'w \<Rightarrow> 'w"

text \<open>
  The process state: the outside world and the requests sent to the S3 client so far, in
  order. Every call of the client goes through one of the functions below, which records
  the request.
\<close>

record 'w proc =
  world :: 'w
  s3_log :: "S3Request list"

definition ListObjects ::
  "'w Platform \<Rightarrow> string \<Rightarrow> nat \<Rightarrow> string \<Rightarrow> string \<Rightarrow> 'w proc
     \<Rightarrow> (AWSError + ListObjectsResult) \<times> 'w proc" where
  "ListObjects P bucket maxkeys pfx marker p =
     (s3_ListObjects P bucket maxkeys pfx marker (world p),
      p\<lparr>s3_log := s3_log p @ [ListObjectsRequest bucket maxkeys pfx marker]\<rparr>)"

definition GetObject ::
  "'w Platform \<Rightarrow> string \<Rightarrow> string \<Rightarrow> nat \<Rightarrow> nat \<Rightarrow> 'w proc \<Rightarrow> (AWSError + string) \<times> 'w proc" where
  "GetObject P bucket key off n p =
     (s3_GetObject P bucket key off n (world p),
      p\<lparr>s3_log := s3_log p @ [GetObjectRequest bucket key off n]\<rparr>)"

definition PutObject ::
  "'w Platform \<Rightarrow> string \<Rightarrow> string \<Rightarrow> string \<Rightarrow> 'w proc \<Rightarrow> (AWSError + unit) \<times> 'w proc" where
  "PutObject P bucket key body p =
     (case s3_PutObject P bucket key body (world p) of
        (outcome, w) \<Rightarrow>
          (outcome, p\<lparr>world := w, s3_log := s3_log p @ [PutObjectRequest bucket key body]\<rparr>))"

definition DeleteObject ::
  "'w Platform \<Rightarrow> string \<Rightarrow> string \<Rightarrow> 'w proc \<Rightarrow> (AWSError + unit) \<times> 'w proc" where
  "DeleteObject P bucket key p =
     (case s3_DeleteObject P bucket key (world p) of
        (outcome, w) \<Rightarrow>
          (outcome, p\<lparr>world := w, s3_log := s3_log p @ [DeleteObjectRequest bucket key]\<rparr>))"

definition CopyObject ::
  "'w Platform \<Rightarrow> string \<Rightarrow> string \<Rightarrow> string \<Rightarrow> 'w proc \<Rightarrow> (AWSError + unit) \<times> 'w proc" where
  "CopyObject P bucket key source p =
     (case s3_CopyObject P bucket key source (world p) of
        (outcome, w) \<Rightarrow>
          (outcome, p\<lparr>world := w, s3_log := s3_log p @ [CopyObjectRequest bucket key source]\<rparr>))"

text \<open>A call of the POSIX environment that changes the world sends no request.\<close>

definition on_world :: "('w \<Rightarrow> Status \<times> 'w) \<Rightarrow> 'w proc \<Rightarrow> Status \<times> 'w proc" where
  "on_world f p = (case f (world p) of (st, w) \<Rightarrow> (st, p\<lparr>world := w\<rparr>))"

section \<open>The environment object\<close>

text \<open>
  The fields of \<^verbatim>\<open>AwsEnv\<close>, named as in the source without the trailing underscore
  (an Isabelle name cannot end with one). A pointer field is the flag "is set": \<open>kinesis_client\<close>,
  \<open>tailer\<close>; \<open>tid\<close> says that the tailer thread was started.
\<close>

record AwsEnv =
  bucket_prefix :: string
  keep_local_sst_files :: bool
  running :: bool
  create_bucket_status :: Status
  kinesis_client :: bool
  tailer :: bool
  tid :: bool

text \<open>
  The constructor. \<open>create_bucket_status\<close> is set by the bucket creation and then, as long
  as it is ok, by the Kinesis client, the stream creation and the tailer.
\<close>

definition AwsEnv_new :: "'w Platform \<Rightarrow> string \<Rightarrow> bool \<Rightarrow> 'w proc \<Rightarrow> AwsEnv \<times> 'w proc" where
  "AwsEnv_new P bucket keep_local p0 =
     (let this0 = \<lparr>bucket_prefix = bucket,
                   keep_local_sst_files = keep_local,
                   running = True,
                   create_bucket_status = OK,
                   kinesis_client = False, tailer = False, tid = False\<rparr>;
          (st1, p1) = on_world (CreateBucketInS3 P bucket) p0;
          this1 = this0\<lparr>create_bucket_status := st1\<rparr>;
          this2 = (if ok (create_bucket_status this1)
                   then (let c = make_kinesis_client P (world p1)
                         in if \<not> c
                            then this1\<lparr>kinesis_client := c,
                                       create_bucket_status :=
                                         IOError ''Error in creating Kinesis client'' []\<rparr>
                            else this1\<lparr>kinesis_client := c\<rparr>)
                   else this1);
          (this3, p3) = (if ok (create_bucket_status this2)
                         then (case on_world (CreateStream P bucket) p1 of
                                 (st3, p') \<Rightarrow> (this2\<lparr>create_bucket_status := st3\<rparr>, p'))
                         else (this2, p1));
          this4 = (if ok (create_bucket_status this3)
                   then (let st4 = KinesisSystem_status P (world p3);
                             t = this3\<lparr>create_bucket_status := st4, tailer := True\<rparr>
                         in if ok (create_bucket_status t) then t\<lparr>tid := True\<rparr> else t)
                   else this3)
      in (this4, p3))"

definition IsValid :: "AwsEnv \<Rightarrow> Status" where
  "IsValid this = create_bucket_status this"

text \<open>
  The factory. \<^verbatim>\<open>new\<close> does not return null, so the test \<^verbatim>\<open>s == nullptr\<close> is dropped; the
  call leaves \<^verbatim>\<open>keep_local_sst_files\<close> to the default of the (absent) header, which is
  the argument \<open>keep_local_default\<close> here. \<open>None\<close> is the null pointer.
\<close>

definition NewAwsEnv ::
  "'w Platform \<Rightarrow> string \<Rightarrow> bool \<Rightarrow> 'w proc \<Rightarrow> AwsEnv option \<times> 'w proc" where
  "NewAwsEnv P bucket keep_local_default p =
     (case AwsEnv_new P bucket keep_local_default p of
        (s, p') \<Rightarrow> if \<not> ok (IsValid s) then (None, p') else (Some s, p'))"

definition CheckOption :: "AwsEnv \<Rightarrow> EnvOptions \<Rightarrow> Status" where
  "CheckOption this options =
     (if use_mmap_reads options \<and> \<not> keep_local_sst_files this
      then InvalidArgument ''Mmap only if keep_local_sst_files_ is set''
      else OK)"

text \<open>\<^verbatim>\<open>GetFileType\<close> returns the pair \<open>(sstFile, logFile)\<close>.\<close>

definition GetFileType :: "'w Platform \<Rightarrow> string \<Rightarrow> bool \<times> bool" where
  "GetFileType P fname =
     (let sstFile = IsSstFile P fname
      in if \<not> sstFile then (sstFile, IsLogFile P fname) else (sstFile, False))"

section \<open>RenameFile\<close>

text \<open>
  The file type is the type of the target. After the two rejections the source goes on to
  build a copy request with a blank bucket and a blank key; the last branch below is that
  code.
\<close>

definition RenameFile :: "'w Platform \<Rightarrow> AwsEnv \<Rightarrow> string \<Rightarrow> string \<Rightarrow> 'w proc \<Rightarrow> Status \<times> 'w proc" where
  "RenameFile P this src target p =
     (case GetFileType P target of
        (sstfile, logfile) \<Rightarrow>
          if \<not> sstfile \<and> \<not> logfile then on_world (posix_RenameFile P src target) p
          else if sstfile then (NotSupported src target, p)
          else if logfile then (NotSupported src target, p)
          else (case CopyObject P [] [] src p of
                  (Inl error, p') \<Rightarrow> (IOError ''AwsEnv::Rename'' (Message error), p')
                | (Inr u, p') \<Rightarrow> (OK, p')))"

section \<open>Retry\<close>

text \<open>
  \<^verbatim>\<open>KinesisSystem::Retry\<close>: the closure \<open>func\<close> runs on the process state. The loop has no
  bound of its own (it leaves when the clock has passed the deadline), so a run that never
  returns is the value \<open>None\<close>. The deadline \<^verbatim>\<open>start + retry_period_micros\<close> is a sum of
  \<^verbatim>\<open>uint64_t\<close>: it is computed in 64-bit words and wraps around as in the source.
\<close>

definition sleep_for_milliseconds :: "'w Platform \<Rightarrow> nat \<Rightarrow> 'w proc \<Rightarrow> 'w proc" where
  "sleep_for_milliseconds P ms p = p\<lparr>world := sleep_for P ms (world p)\<rparr>"

partial_function (option) Retry_loop ::
  "'w Platform \<Rightarrow> ('w proc \<Rightarrow> Status \<times> 'w proc) \<Rightarrow> 64 word \<Rightarrow> 'w proc
     \<Rightarrow> (Status \<times> 'w proc) option" where
  "Retry_loop P func start p =
     (case func p of
        (stat, p1) \<Rightarrow>
          if ok stat then Some (stat, p1)
          else (let p2 = sleep_for_milliseconds P 100 p1;
                    now = NowMicros P (world p2)
                in if start + retry_period_micros P < now then Some (TimedOut, p2)
                   else Retry_loop P func start p2))"

declare Retry_loop.simps [code]

definition Retry ::
  "'w Platform \<Rightarrow> ('w proc \<Rightarrow> Status \<times> 'w proc) \<Rightarrow> 'w proc \<Rightarrow> (Status \<times> 'w proc) option" where
  "Retry P func p = Retry_loop P func (NowMicros P (world p)) p"

text \<open>
  The vocabulary for what \<open>Retry\<close> does: \<open>pause\<close> is one failed attempt followed by the
  sleep, so \<open>(pause P func ^^ k) p\<close> is the state before attempt \<open>k + 1\<close>; \<open>expired\<close> is
  the test of the deadline, in 64-bit words as the loop computes it; and \<open>Retry_outcome \<dots> k r\<close> says that the first \<open>k\<close> attempts
  failed with the deadline not passed after their sleeps, and that attempt \<open>k + 1\<close> either
  succeeded, with \<open>r\<close> its result, or failed with the deadline passed after its sleep, with
  \<open>r\<close> the status \<open>TimedOut\<close>.
\<close>

definition pause :: "'w Platform \<Rightarrow> ('w proc \<Rightarrow> Status \<times> 'w proc) \<Rightarrow> 'w proc \<Rightarrow> 'w proc" where
  "pause P func q = sleep_for_milliseconds P 100 (snd (func q))"

definition expired :: "'w Platform \<Rightarrow> 64 word \<Rightarrow> 'w proc \<Rightarrow> bool" where
  "expired P start q = (start + retry_period_micros P < NowMicros P (world q))"

definition Retry_outcome ::
  "'w Platform \<Rightarrow> ('w proc \<Rightarrow> Status \<times> 'w proc) \<Rightarrow> 64 word \<Rightarrow> 'w proc \<Rightarrow> nat
     \<Rightarrow> Status \<times> 'w proc \<Rightarrow> bool" where
  "Retry_outcome P func start p k r =
     ((\<forall>j<k. \<not> ok (fst (func ((pause P func ^^ j) p))) \<and>
              \<not> expired P start ((pause P func ^^ Suc j) p)) \<and>
      (if ok (fst (func ((pause P func ^^ k) p)))
       then r = func ((pause P func ^^ k) p)
       else expired P start ((pause P func ^^ Suc k) p) \<and>
            r = (TimedOut, (pause P func ^^ Suc k) p)))"

section \<open>Existence of a file\<close>

text \<open>
  Modelled from the spec: \<^verbatim>\<open>S3ReadableFile::Read\<close> (\<^verbatim>\<open>cloud/aws_file.cc\<close> is not among the
  sources). The spec's object-store adapter has \<open>get(prefix, key, offset, len)\<close>, which
  "returns exact range or NotFound if the object is absent", and the adapters "translate
  wire errors" into status kinds. The read is one ranged get of the object named by the
  path in the environment's bucket; the three error types that \<^verbatim>\<open>aws_env.cc\<close> itself
  takes for "absent" give \<open>NotFound\<close>, every other error \<open>IOError\<close>.
\<close>

definition S3ReadableFile_Read ::
  "'w Platform \<Rightarrow> AwsEnv \<Rightarrow> string \<Rightarrow> nat \<Rightarrow> nat \<Rightarrow> 'w proc \<Rightarrow> (Status \<times> string) \<times> 'w proc" where
  "S3ReadableFile_Read P this fname off n p =
     (case GetObject P (GetBucket P (bucket_prefix this)) fname off n p of
        (Inr bytes, p') \<Rightarrow> ((OK, bytes), p')
      | (Inl error, p') \<Rightarrow>
          ((if absent_error (ErrorType error) then NotFound fname (Message error)
            else IOError fname (Message error), []), p'))"

text \<open>
  \<^verbatim>\<open>PathExistsInS3\<close> reads 0 bytes from the object. With \<open>keep_local_sst_files\<close> and
  \<open>isfile\<close> it also asks the local filesystem, only to log a warning: the answer is
  \<open>OK\<close> either way. (The flag \<open>isfile\<close> also goes to the constructor of the
  \<^verbatim>\<open>S3ReadableFile\<close>; the spec does not say what it does there.)
\<close>

definition PathExistsInS3 :: "'w Platform \<Rightarrow> AwsEnv \<Rightarrow> string \<Rightarrow> bool \<Rightarrow> 'w proc \<Rightarrow> Status \<times> 'w proc" where
  "PathExistsInS3 P this fname isfile p =
     (case S3ReadableFile_Read P this fname 0 0 p of
        ((ret, result), p') \<Rightarrow>
          if \<not> ok ret then (ret, p')
          else if keep_local_sst_files this \<and> isfile
               then (let st = posix_FileExists P fname (world p') in (OK, p'))
               else (OK, p'))"

definition FileExists :: "'w Platform \<Rightarrow> AwsEnv \<Rightarrow> string \<Rightarrow> 'w proc \<Rightarrow> (Status \<times> 'w proc) option" where
  "FileExists P this fname p =
     (case GetFileType P fname of
        (sstfile, logfile) \<Rightarrow>
          if sstfile then
            (if keep_local_sst_files this then Some (posix_FileExists P fname (world p), p)
             else Some (PathExistsInS3 P this fname True p))
          else if logfile then
            (let pathname = GetCachePath P (GetCacheDir P) fname
             in Retry P (\<lambda>q. (posix_FileExists P pathname (world q), q)) p)
          else Some (posix_FileExists P fname (world p), p))"

section \<open>Listing a directory\<close>

text \<open>
  \<^verbatim>\<open>keystr.find(path) == 0\<close>: the path is a prefix of the key.
\<close>

definition find_at_0 :: "string \<Rightarrow> string \<Rightarrow> bool" where
  "find_at_0 keystr path = (take (length path) keystr = path)"

text \<open>
  The \<^verbatim>\<open>for\<close> loop over one page: it appends the keys to the result and stops at a key
  that does not start with the path, clearing \<open>loop\<close>.
\<close>

fun push_keys :: "string \<Rightarrow> string list \<Rightarrow> string list \<Rightarrow> bool \<times> string list" where
  "push_keys path [] result = (True, result)"
| "push_keys path (keystr # objs) result =
     (if \<not> find_at_0 keystr path then (False, result)
      else push_keys path objs (result @ [keystr]))"

text \<open>
  The \<^verbatim>\<open>while (loop)\<close> of \<^verbatim>\<open>GetChildrenFromS3\<close>: one request per page of 50 keys, from
  the marker of the page before. It goes on as long as the service answers truncated
  pages, so a listing that never ends is the value \<open>None\<close>.
\<close>

partial_function (option) GetChildrenFromS3_loop ::
  "'w Platform \<Rightarrow> string \<Rightarrow> string \<Rightarrow> string \<Rightarrow> string list \<Rightarrow> 'w proc
     \<Rightarrow> ((Status \<times> string list) \<times> 'w proc) option" where
  "GetChildrenFromS3_loop P bucket path marker result p =
     (case ListObjects P bucket 50 path marker p of
        (Inl error, p') \<Rightarrow>
          if absent_error (ErrorType error)
          then Some ((NotFound path (Message error), result), p')
          else Some ((IOError path (Message error), result), p')
      | (Inr res, p') \<Rightarrow>
          (case push_keys path (Contents res) result of
             (loop, result') \<Rightarrow>
               if \<not> IsTruncated res then Some ((OK, result'), p')
               else if loop
                    then GetChildrenFromS3_loop P bucket path (NextMarker res) result' p'
                    else Some ((OK, result'), p')))"

declare GetChildrenFromS3_loop.simps [code]




section \<open>Deleting a file\<close>

definition DeletePathInS3 :: "'w Platform \<Rightarrow> AwsEnv \<Rightarrow> string \<Rightarrow> 'w proc \<Rightarrow> Status \<times> 'w proc" where
  "DeletePathInS3 P this fname p =
     (case DeleteObject P (GetBucket P (bucket_prefix this)) fname p of
        (Inl error, p') \<Rightarrow>
          if absent_error (ErrorType error) then (NotFound fname (Message error), p')
          else (IOError fname (Message error), p')
      | (Inr u, p') \<Rightarrow> (OK, p'))"

definition DeleteFile :: "'w Platform \<Rightarrow> AwsEnv \<Rightarrow> string \<Rightarrow> 'w proc \<Rightarrow> Status \<times> 'w proc" where
  "DeleteFile P this fname p =
     (case GetFileType P fname of
        (sstfile, logfile) \<Rightarrow>
          if sstfile then
            (case DeletePathInS3 P this fname p of
               (st, p') \<Rightarrow>
                 if ok st \<and> keep_local_sst_files this
                 then on_world (posix_DeleteFile P fname) p'
                 else (st, p'))
          else if logfile then
            (if \<not> ok (KinesisWritableFile_status P fname (world p))
             then (IOError ''[Kinesis] DeleteFile'' fname, p)
             else on_world (KinesisWritableFile_LogDelete P fname) p)
          else on_world (posix_DeleteFile P fname) p)"

section \<open>Opening files\<close>

text \<open>A file handle is the class of the object behind it and the path it was opened with.\<close>

datatype WritableFile =
    PosixWritableFile string
  | S3WritableFile string
  | KinesisWritableFile string

datatype RandomAccessFile =
    PosixRandomAccessFile string
  | S3ReadableFile string

text \<open>
  Modelled from the spec: the constructor of \<^verbatim>\<open>S3WritableFile\<close> (\<^verbatim>\<open>cloud/aws_file.cc\<close> is
  not among the sources). The spec's dispatch table has for a data file a "buffered local
  file; on close upload to DESTINATION prefix": the constructor opens the local file, and
  its status is the status of that.
\<close>

definition S3WritableFile_new :: "'w Platform \<Rightarrow> string \<Rightarrow> 'w proc \<Rightarrow> Status \<times> 'w proc" where
  "S3WritableFile_new P fname p = on_world (posix_NewWritableFile P fname) p"

text \<open>
  Modelled from the spec: \<^verbatim>\<open>S3WritableFile::Append\<close> (absent). A data file is "written
  locally, then uploaded on close": the bytes go to the local file.
\<close>

definition S3WritableFile_Append ::
  "'w Platform \<Rightarrow> string \<Rightarrow> string \<Rightarrow> 'w proc \<Rightarrow> Status \<times> 'w proc" where
  "S3WritableFile_Append P fname data p = on_world (posix_Append P fname data) p"

text \<open>
  Modelled from the spec: \<^verbatim>\<open>S3WritableFile::Close\<close> (absent). "On close upload to
  DESTINATION prefix", and the policy \<open>keep_local_sst\<close> is to "retain the local cached copy
  after upload": the bytes of the local file are put under the path as key, and the local
  file is removed unless it is kept.
\<close>

definition S3WritableFile_Close ::
  "'w Platform \<Rightarrow> AwsEnv \<Rightarrow> string \<Rightarrow> 'w proc \<Rightarrow> Status \<times> 'w proc" where
  "S3WritableFile_Close P this fname p =
     (case posix_GetFileSize P fname (world p) of
        (st, sz) \<Rightarrow>
          if \<not> ok st then (st, p)
          else (case posix_Read P fname 0 sz (world p) of
                  (st', bytes) \<Rightarrow>
                    if \<not> ok st' then (st', p)
                    else (case PutObject P (GetBucket P (bucket_prefix this)) fname bytes p of
                            (Inl error, p') \<Rightarrow> (IOError fname (Message error), p')
                          | (Inr u, p') \<Rightarrow>
                              if keep_local_sst_files this then (OK, p')
                              else on_world (posix_DeleteFile P fname) p')))"

definition NewWritableFile ::
  "'w Platform \<Rightarrow> AwsEnv \<Rightarrow> string \<Rightarrow> 'w proc \<Rightarrow> (Status \<times> WritableFile option) \<times> 'w proc" where
  "NewWritableFile P this fname p =
     (case GetFileType P fname of
        (sstfile, logfile) \<Rightarrow>
          if \<not> sstfile \<and> \<not> logfile then
            (case on_world (posix_NewWritableFile P fname) p of
               (st, p') \<Rightarrow> ((st, if ok st then Some (PosixWritableFile fname) else None), p'))
          else if sstfile then
            (case S3WritableFile_new P fname p of
               (st, p') \<Rightarrow>
                 if \<not> ok st then ((IOError ''[aws] NewWritableFile'' fname, None), p')
                 else ((OK, Some (S3WritableFile fname)), p'))
          else if logfile then
            (if \<not> ok (KinesisWritableFile_status P fname (world p))
             then ((IOError ''[aws] NewWritableFile'' fname, None), p)
             else ((OK, Some (KinesisWritableFile fname)), p))
          else ((OK, None), p))"

definition posix_open ::
  "'w Platform \<Rightarrow> string \<Rightarrow> 'w proc \<Rightarrow> (Status \<times> RandomAccessFile option) \<times> 'w proc" where
  "posix_open P fname p =
     (let st = posix_NewRandomAccessFile P fname (world p)
      in ((st, if ok st then Some (PosixRandomAccessFile fname) else None), p))"

definition NewRandomAccessFile ::
  "'w Platform \<Rightarrow> AwsEnv \<Rightarrow> string \<Rightarrow> EnvOptions \<Rightarrow> 'w proc
     \<Rightarrow> ((Status \<times> RandomAccessFile option) \<times> 'w proc) option" where
  "NewRandomAccessFile P this fname options p =
     (case GetFileType P fname of
        (sstfile, logfile) \<Rightarrow>
          (let st = CheckOption this options
           in if \<not> ok st then Some ((st, None), p)
              else if sstfile then
                (if keep_local_sst_files this then Some (posix_open P fname p)
                 else (let fstatus = S3ReadableFile_status P fname (world p)
                       in if \<not> ok fstatus then Some ((fstatus, None), p)
                          else Some ((OK, Some (S3ReadableFile fname)), p)))
              else if logfile then
                (let pathname = GetCachePath P (GetCacheDir P) fname
                 in case Retry P (\<lambda>q. (posix_NewRandomAccessFile P pathname (world q), q)) p of
                      None \<Rightarrow> None
                    | Some (rst, p') \<Rightarrow>
                        Some ((rst, if ok rst then Some (PosixRandomAccessFile pathname)
                                    else None), p'))
              else Some (posix_open P fname p)))"

fun RandomAccessFile_Read ::
  "'w Platform \<Rightarrow> AwsEnv \<Rightarrow> RandomAccessFile \<Rightarrow> nat \<Rightarrow> nat \<Rightarrow> 'w proc
     \<Rightarrow> (Status \<times> string) \<times> 'w proc" where
  "RandomAccessFile_Read P this (PosixRandomAccessFile path) off n p =
     (posix_Read P path off n (world p), p)"
| "RandomAccessFile_Read P this (S3ReadableFile fname) off n p =
     S3ReadableFile_Read P this fname off n p"

fun WritableFile_Append ::
  "'w Platform \<Rightarrow> WritableFile \<Rightarrow> string \<Rightarrow> 'w proc \<Rightarrow> Status \<times> 'w proc" where
  "WritableFile_Append P (PosixWritableFile path) data p = on_world (posix_Append P path data) p"
| "WritableFile_Append P (S3WritableFile fname) data p = S3WritableFile_Append P fname data p"
| "WritableFile_Append P (KinesisWritableFile fname) data p =
     on_world (KinesisWritableFile_Append P fname data) p"

fun WritableFile_Close ::
  "'w Platform \<Rightarrow> AwsEnv \<Rightarrow> WritableFile \<Rightarrow> 'w proc \<Rightarrow> Status \<times> 'w proc" where
  "WritableFile_Close P this (PosixWritableFile path) p = (OK, p)"
| "WritableFile_Close P this (S3WritableFile fname) p = S3WritableFile_Close P this fname p"
| "WritableFile_Close P this (KinesisWritableFile fname) p =
     on_world (KinesisWritableFile_Close P fname) p"

section \<open>The scenarios of the tests\<close>

text \<open>
  \<^verbatim>\<open>createFile\<close> of \<^verbatim>\<open>db_cloud_test.cc\<close>: open the file for writing, append the data, and
  close it when the writer goes out of scope. The status is that of the first step that
  fails.
\<close>

definition createFile ::
  "'w Platform \<Rightarrow> AwsEnv \<Rightarrow> string \<Rightarrow> string \<Rightarrow> 'w proc \<Rightarrow> Status \<times> 'w proc" where
  "createFile P this fname data p =
     (case NewWritableFile P this fname p of
        ((st, None), p1) \<Rightarrow> (st, p1)
      | ((st, Some writer), p1) \<Rightarrow>
          if \<not> ok st then (st, p1)
          else (case WritableFile_Append P writer data p1 of
                  (st2, p2) \<Rightarrow>
                    if \<not> ok st2 then (st2, p2) else WritableFile_Close P this writer p2))"

text \<open>
  \<^verbatim>\<open>CloudTest::CopyToFromS3\<close>: write the bytes to the file and close it, delete the local
  copy with the base environment, open the file for reading and read as many bytes back.
  The result is the status of the open (or of the read) and the bytes read.
\<close>

definition CopyToFromS3 ::
  "'w Platform \<Rightarrow> AwsEnv \<Rightarrow> string \<Rightarrow> string \<Rightarrow> 'w proc
     \<Rightarrow> ((Status \<times> string) \<times> 'w proc) option" where
  "CopyToFromS3 P this fname bytes p =
     (case createFile P this fname bytes p of
        (st1, p1) \<Rightarrow>
          if \<not> ok st1 then Some ((st1, []), p1)
          else (case on_world (posix_DeleteFile P fname) p1 of
                  (st2, p2) \<Rightarrow>
                    (case NewRandomAccessFile P this fname \<lparr>use_mmap_reads = False\<rparr> p2 of
                       None \<Rightarrow> None
                     | Some ((st3, None), p3) \<Rightarrow> Some ((st3, []), p3)
                     | Some ((st3, Some reader), p3) \<Rightarrow>
                         if \<not> ok st3 then Some ((st3, []), p3)
                         else Some (RandomAccessFile_Read P this reader 0 (length bytes) p3))))"

text \<open>
  One round of \<^verbatim>\<open>CloudTest::DelayFileDeletion\<close>: create the file, delete it, ask at once
  whether it exists, create it again in the second round, sleep for 3 s and ask again.
  The result is the three statuses: of the deletion and of the two questions.
\<close>

definition DelayFileDeletion ::
  "'w Platform \<Rightarrow> AwsEnv \<Rightarrow> string \<Rightarrow> bool \<Rightarrow> 'w proc \<Rightarrow> (Status \<times> Status \<times> Status) option" where
  "DelayFileDeletion P this fname second_round p =
     (case createFile P this fname (concat (replicate 10 ''igor'')) p of
        (st1, p1) \<Rightarrow>
          (case DeleteFile P this fname p1 of
             (deleted, p2) \<Rightarrow>
               (case FileExists P this fname p2 of
                  None \<Rightarrow> None
                | Some (at_once, p3) \<Rightarrow>
                    (let p4 = (if second_round
                               then snd (createFile P this fname (concat (replicate 10 ''igor'')) p3)
                               else p3);
                         p5 = sleep_for_milliseconds P 3000 p4
                     in case FileExists P this fname p5 of
                          None \<Rightarrow> None
                        | Some (later, p6) \<Rightarrow> Some (deleted, at_once, later)))))"

section \<open>An in-memory platform\<close>

text \<open>
  A concrete platform, on which the code runs at concrete inputs. The local filesystem is
  a table from paths to contents, the object store a table from keys to contents: a put
  stores the body, a get answers the range asked for or the error \<^verbatim>\<open>NO_SUCH_KEY\<close>, a list
  answers the keys under the prefix after the marker, page by page, and a delete of an
  absent key is answered with \<^verbatim>\<open>NO_SUCH_KEY\<close> (the answer that \<^verbatim>\<open>DeletePathInS3\<close> tests
  for). The classifier of this platform goes by the extension (the spec's classifier
  recognises its classes "by suffix/number pattern"), the retry period is the spec's
  default of 10 s, and the clock advances only by sleeping.
\<close>

record mem_world =
  files :: "(string \<times> string) list"
  objects :: "(string \<times> string) list"
  clock :: "64 word"

definition basename :: "string \<Rightarrow> string" where
  "basename path = rev (takeWhile (\<lambda>c. c \<noteq> CHR ''/'') (rev path))"

definition dirname :: "string \<Rightarrow> string" where
  "dirname path = rev (drop 1 (dropWhile (\<lambda>c. c \<noteq> CHR ''/'') (rev path)))"

definition ends_with :: "string \<Rightarrow> string \<Rightarrow> bool" where
  "ends_with sfx s = (drop (length s - length sfx) s = sfx)"

definition store :: "string \<Rightarrow> string \<Rightarrow> (string \<times> string) list \<Rightarrow> (string \<times> string) list" where
  "store k v tab = filter (\<lambda>e. fst e \<noteq> k) tab @ [(k, v)]"

definition remove :: "string \<Rightarrow> (string \<times> string) list \<Rightarrow> (string \<times> string) list" where
  "remove k tab = filter (\<lambda>e. fst e \<noteq> k) tab"

definition no_entry :: "string \<Rightarrow> Status" where
  "no_entry path = IOError path ''No such file or directory''"

definition mem_FileExists :: "string \<Rightarrow> mem_world \<Rightarrow> Status" where
  "mem_FileExists path w =
     (case map_of (files w) path of
        None \<Rightarrow> NotFound path ''No such file or directory''
      | Some c \<Rightarrow> OK)"

definition mem_DeleteFile :: "string \<Rightarrow> mem_world \<Rightarrow> Status \<times> mem_world" where
  "mem_DeleteFile path w =
     (case map_of (files w) path of
        None \<Rightarrow> (no_entry path, w)
      | Some c \<Rightarrow> (OK, w\<lparr>files := remove path (files w)\<rparr>))"

definition mem_RenameFile :: "string \<Rightarrow> string \<Rightarrow> mem_world \<Rightarrow> Status \<times> mem_world" where
  "mem_RenameFile src target w =
     (case map_of (files w) src of
        None \<Rightarrow> (no_entry src, w)
      | Some c \<Rightarrow> (OK, w\<lparr>files := store target c (remove src (files w))\<rparr>))"

definition mem_GetChildren :: "string \<Rightarrow> mem_world \<Rightarrow> Status \<times> string list" where
  "mem_GetChildren dir w =
     (OK, map basename (filter (\<lambda>path. dirname path = dir) (map fst (files w))))"

definition mem_NewRandomAccessFile :: "string \<Rightarrow> mem_world \<Rightarrow> Status" where
  "mem_NewRandomAccessFile path w =
     (case map_of (files w) path of None \<Rightarrow> no_entry path | Some c \<Rightarrow> OK)"

definition mem_Read :: "string \<Rightarrow> nat \<Rightarrow> nat \<Rightarrow> mem_world \<Rightarrow> Status \<times> string" where
  "mem_Read path off n w =
     (case map_of (files w) path of
        None \<Rightarrow> (no_entry path, [])
      | Some c \<Rightarrow> (OK, take n (drop off c)))"

definition mem_NewWritableFile :: "string \<Rightarrow> mem_world \<Rightarrow> Status \<times> mem_world" where
  "mem_NewWritableFile path w = (OK, w\<lparr>files := store path [] (files w)\<rparr>)"

definition mem_Append :: "string \<Rightarrow> string \<Rightarrow> mem_world \<Rightarrow> Status \<times> mem_world" where
  "mem_Append path data w =
     (case map_of (files w) path of
        None \<Rightarrow> (no_entry path, w)
      | Some c \<Rightarrow> (OK, w\<lparr>files := store path (c @ data) (files w)\<rparr>))"

definition mem_GetFileSize :: "string \<Rightarrow> mem_world \<Rightarrow> Status \<times> nat" where
  "mem_GetFileSize path w =
     (case map_of (files w) path of
        None \<Rightarrow> (no_entry path, 0)
      | Some c \<Rightarrow> (OK, length c))"

definition no_such_key :: AWSError where
  "no_such_key = \<lparr>ErrorType = NO_SUCH_KEY, Message = ''The specified key does not exist.''\<rparr>"

definition keys_after :: "string \<Rightarrow> string list \<Rightarrow> string list" where
  "keys_after marker ks = (if marker = [] then ks else drop 1 (dropWhile (\<lambda>k. k \<noteq> marker) ks))"

definition mem_ListObjects ::
  "string \<Rightarrow> nat \<Rightarrow> string \<Rightarrow> string \<Rightarrow> mem_world \<Rightarrow> AWSError + ListObjectsResult" where
  "mem_ListObjects bucket maxkeys pfx marker w =
     (let ks = keys_after marker (filter (\<lambda>k. find_at_0 k pfx) (map fst (objects w)));
          page = take maxkeys ks;
          more = (maxkeys < length ks)
      in Inr \<lparr>Contents = page, IsTruncated = more,
              NextMarker = (if more \<and> page \<noteq> [] then last page else [])\<rparr>)"

definition mem_GetObject :: "string \<Rightarrow> string \<Rightarrow> nat \<Rightarrow> nat \<Rightarrow> mem_world \<Rightarrow> AWSError + string" where
  "mem_GetObject bucket key off n w =
     (case map_of (objects w) key of
        None \<Rightarrow> Inl no_such_key
      | Some c \<Rightarrow> Inr (take n (drop off c)))"

definition mem_PutObject ::
  "string \<Rightarrow> string \<Rightarrow> string \<Rightarrow> mem_world \<Rightarrow> (AWSError + unit) \<times> mem_world" where
  "mem_PutObject bucket key body w = (Inr (), w\<lparr>objects := store key body (objects w)\<rparr>)"

definition mem_DeleteObject :: "string \<Rightarrow> string \<Rightarrow> mem_world \<Rightarrow> (AWSError + unit) \<times> mem_world" where
  "mem_DeleteObject bucket key w =
     (case map_of (objects w) key of
        None \<Rightarrow> (Inl no_such_key, w)
      | Some c \<Rightarrow> (Inr (), w\<lparr>objects := remove key (objects w)\<rparr>))"

definition mem_CopyObject ::
  "string \<Rightarrow> string \<Rightarrow> string \<Rightarrow> mem_world \<Rightarrow> (AWSError + unit) \<times> mem_world" where
  "mem_CopyObject bucket key source w =
     (case map_of (objects w) source of
        None \<Rightarrow> (Inl no_such_key, w)
      | Some c \<Rightarrow> (Inr (), w\<lparr>objects := store key c (objects w)\<rparr>))"

definition mem :: "mem_world Platform" where
  "mem = \<lparr>posix_FileExists = mem_FileExists,
          posix_DeleteFile = mem_DeleteFile,
          posix_RenameFile = mem_RenameFile,
          posix_GetChildren = mem_GetChildren,
          posix_NewRandomAccessFile = mem_NewRandomAccessFile,
          posix_Read = mem_Read,
          posix_NewWritableFile = mem_NewWritableFile,
          posix_Append = mem_Append,
          posix_GetFileSize = mem_GetFileSize,
          s3_ListObjects = mem_ListObjects,
          s3_GetObject = mem_GetObject,
          s3_PutObject = mem_PutObject,
          s3_DeleteObject = mem_DeleteObject,
          s3_CopyObject = mem_CopyObject,
          IsSstFile = ends_with ''.sst'',
          IsLogFile = ends_with ''.log'',
          GetBucket = (\<lambda>bucket_prefix. bucket_prefix),
          CreateBucketInS3 = (\<lambda>bucket w. (OK, w)),
          make_kinesis_client = (\<lambda>w. True),
          CreateStream = (\<lambda>bucket w. (OK, w)),
          KinesisSystem_status = (\<lambda>w. OK),
          GetCacheDir = ''/cache'',
          GetCachePath = (\<lambda>dir fname. dir @ ''/'' @ basename fname),
          KinesisWritableFile_status = (\<lambda>fname w. OK),
          KinesisWritableFile_LogDelete = (\<lambda>fname w. (OK, w)),
          KinesisWritableFile_Append = (\<lambda>fname data w. (OK, w)),
          KinesisWritableFile_Close = (\<lambda>fname w. (OK, w)),
          S3ReadableFile_status = (\<lambda>fname w. OK),
          retry_period_micros = 10000000,
          NowMicros = clock,
          sleep_for = (\<lambda>ms w. w\<lparr>clock := clock w + of_nat (ms * 1000)\<rparr>)\<rparr>"

text \<open>An environment as the factory makes it, and a process that has sent no request yet.\<close>

definition an_env :: "bool \<Rightarrow> AwsEnv" where
  "an_env keep_local =
     \<lparr>bucket_prefix = ''dbcloud'', keep_local_sst_files = keep_local, running = True,
      create_bucket_status = OK, kinesis_client = True, tailer = True, tid = True\<rparr>"

definition a_proc :: "(string \<times> string) list \<Rightarrow> (string \<times> string) list \<Rightarrow> mem_world proc" where
  "a_proc fs obs = \<lparr>world = \<lparr>files = fs, objects = obs, clock = 0\<rparr>, s3_log = []\<rparr>"


definition flaky :: "nat \<Rightarrow> Status \<Rightarrow> mem_world proc \<Rightarrow> Status \<times> mem_world proc" where
  "flaky n e q =
     (case mem_GetFileSize ''/calls'' (world q) of
        (st, calls) \<Rightarrow>
          (if n \<le> calls then OK else e, snd (on_world (mem_Append ''/calls'' ''x'') q)))"

section \<open>The cloud-manifest coordinator\<close>

text \<open>
  Modelled from the spec: the cloud-manifest coordinator and the engine's view of a shared
  prefix (\<^verbatim>\<open>DBCloud::Open\<close> and the \<^verbatim>\<open>CLOUDMANIFEST\<close> code are not among the sources, only
  the test \<^verbatim>\<open>CloudTest::TwoConcurrentWriters\<close> is). The spec's words, section 4.5:
  \<^item> the pointer object \<^verbatim>\<open>CLOUDMANIFEST\<close> names the authoritative engine-manifest; an
    engine-manifest "lists the live data files"; its name embeds the epoch of the writer,
    and so does the name of a data file (\<^verbatim>\<open><epoch>.<engine-seq>.sst\<close>);
  \<^item> open as writer: "1. Read pointer-object (or absent: fresh prefix). 2. Fetch
    target_name. 3. Mint a new epoch E (monotonic). 4. Prepare new engine-manifest name by
    prepending E. 5. upload under the new name; then atomically overwrite the
    pointer-object to reference it"; a pointer that names a missing engine-manifest is
    \<open>Corruption\<close>, and "the database refuses to open";
  \<^item> "Old owners' subsequent writes still land in the prefix but reference
    engine-manifests no one points to";
  \<^item> open as reader: "identical but no new pointer is written".

  An epoch is a number taken from a clock that only grows; an engine-manifest is named by
  its epoch and is the list of its live data files, newest first; a data file is named by
  the epoch and the sequence number of its writer and holds the pair of one
  \<^verbatim>\<open>Put\<close> followed by \<^verbatim>\<open>Flush\<close>, as in the test.
\<close>

datatype cm_error = Corruption | DataFileNotFound

type_synonym file_name = "nat \<times> nat"

record prefix_state =
  CLOUDMANIFEST :: "nat option"
  manifests :: "nat \<rightharpoonup> file_name list"
  data_files :: "file_name \<rightharpoonup> string \<times> string"
  epoch_clock :: nat

record db_writer =
  epoch :: nat
  live :: "file_name list"
  next_seq :: nat

text \<open>
  Modelled from the spec: open as writer (absent from the sources), steps 1 to 5 of the
  open protocol quoted above.
\<close>

definition open_writer :: "prefix_state \<Rightarrow> cm_error + db_writer \<times> prefix_state" where
  "open_writer s =
     (case (case CLOUDMANIFEST s of
              None \<Rightarrow> Inr []
            | Some target_name \<Rightarrow>
                (case manifests s target_name of
                   None \<Rightarrow> Inl Corruption
                 | Some listed \<Rightarrow> Inr listed)) of
        Inl e \<Rightarrow> Inl e
      | Inr listed \<Rightarrow>
          (let E = epoch_clock s
           in Inr (\<lparr>epoch = E, live = listed, next_seq = 0\<rparr>,
                   s\<lparr>epoch_clock := Suc E,
                     manifests := (manifests s)(E \<mapsto> listed),
                     CLOUDMANIFEST := Some E\<rparr>)))"

text \<open>
  Modelled from the spec: a write of the engine that becomes durable (absent from the
  sources). "Old owners' subsequent writes still land in the prefix but reference
  engine-manifests no one points to": the write is a new data file under the writer's
  epoch and the writer's engine-manifest uploaded again under its own name. The pointer is
  not touched.
\<close>

definition put_flush ::
  "db_writer \<Rightarrow> string \<Rightarrow> string \<Rightarrow> prefix_state \<Rightarrow> db_writer \<times> prefix_state" where
  "put_flush w k v s =
     (let name = (epoch w, next_seq w);
          listed = name # live w
      in (w\<lparr>live := listed, next_seq := Suc (next_seq w)\<rparr>,
          s\<lparr>data_files := (data_files s)(name \<mapsto> (k, v)),
            manifests := (manifests s)(epoch w \<mapsto> listed)\<rparr>))"

text \<open>
  Modelled from the spec: the lookup of a key in the live data files (the engine's read
  path, absent from the sources), newest file first; a live file that is missing is an
  error ("the engine treats missing files as fatal").
\<close>

fun read_files ::
  "(file_name \<rightharpoonup> string \<times> string) \<Rightarrow> file_name list \<Rightarrow> string \<Rightarrow> cm_error + string option" where
  "read_files df [] k = Inr None"
| "read_files df (name # names) k =
     (case df name of
        None \<Rightarrow> Inl DataFileNotFound
      | Some (k', v) \<Rightarrow> if k' = k then Inr (Some v) else read_files df names k)"

text \<open>
  Modelled from the spec: open as reader (absent from the sources), "identical but no new
  pointer is written": the reader goes through the pointer to the engine-manifest it
  names; a prefix without pointer is a fresh, empty database.
\<close>

definition reader_get :: "prefix_state \<Rightarrow> string \<Rightarrow> cm_error + string option" where
  "reader_get s k =
     (case CLOUDMANIFEST s of
        None \<Rightarrow> Inr None
      | Some target_name \<Rightarrow>
          (case manifests s target_name of
             None \<Rightarrow> Inl Corruption
           | Some listed \<Rightarrow> read_files (data_files s) listed k))"

text \<open>
  Two writers on one prefix: W1 opens and writes the pairs of \<open>before\<close>, W2 opens, and then
  the two write in the order of the schedule. The result is the prefix as W2 found it and
  the prefix at the end.
\<close>

datatype writer_id = W1 | W2

fun writes ::
  "db_writer \<Rightarrow> prefix_state \<Rightarrow> (string \<times> string) list \<Rightarrow> db_writer \<times> prefix_state" where
  "writes w s [] = (w, s)"
| "writes w s ((k, v) # rest) = (case put_flush w k v s of (w', s') \<Rightarrow> writes w' s' rest)"

fun interleave ::
  "db_writer \<Rightarrow> db_writer \<Rightarrow> prefix_state \<Rightarrow> (writer_id \<times> string \<times> string) list
     \<Rightarrow> db_writer \<times> db_writer \<times> prefix_state" where
  "interleave w1 w2 s [] = (w1, w2, s)"
| "interleave w1 w2 s ((W1, k, v) # rest) =
     (case put_flush w1 k v s of (w1', s') \<Rightarrow> interleave w1' w2 s' rest)"
| "interleave w1 w2 s ((W2, k, v) # rest) =
     (case put_flush w2 k v s of (w2', s') \<Rightarrow> interleave w1 w2' s' rest)"

definition two_writers ::
  "prefix_state \<Rightarrow> (string \<times> string) list \<Rightarrow> (writer_id \<times> string \<times> string) list
     \<Rightarrow> cm_error + prefix_state \<times> prefix_state" where
  "two_writers s0 before schedule =
     (case open_writer s0 of
        Inl e \<Rightarrow> Inl e
      | Inr (w1, s1) \<Rightarrow>
          (case writes w1 s1 before of
             (w1', s1') \<Rightarrow>
               (case open_writer s1' of
                  Inl e \<Rightarrow> Inl e
                | Inr (w2, s2) \<Rightarrow>
                    (case interleave w1' w2 s2 schedule of
                       (w1'', w2'', s3) \<Rightarrow> Inr (s1', s3)))))"

text \<open>The value of the last write of a writer to a key in a schedule, if there is one.\<close>

fun last_write ::
  "writer_id \<Rightarrow> string \<Rightarrow> (writer_id \<times> string \<times> string) list \<Rightarrow> string option" where
  "last_write who k [] = None"
| "last_write who k ((who', k', v) # rest) =
     (case last_write who k rest of
        Some v' \<Rightarrow> Some v'
      | None \<Rightarrow> if who' = who \<and> k' = k then Some v else None)"

text \<open>
  A prefix is well formed when every data file that an engine-manifest lists carries an
  epoch that the clock has already passed. \<open>owns\<close> and \<open>superseded\<close> are the invariants of
  the proof: what holds of a writer and the prefix while the writer is the only one, and
  what holds of both writers once W2 has opened.
\<close>

definition wf_prefix :: "prefix_state \<Rightarrow> bool" where
  "wf_prefix s =
     (\<forall>m listed. manifests s m = Some listed \<longrightarrow> (\<forall>n\<in>set listed. fst n < epoch_clock s))"

definition empty_prefix :: prefix_state where
  "empty_prefix =
     \<lparr>CLOUDMANIFEST = None, manifests = Map.empty, data_files = Map.empty, epoch_clock = 0\<rparr>"

definition owns :: "db_writer \<Rightarrow> prefix_state \<Rightarrow> bool" where
  "owns w s =
     (manifests s (epoch w) = Some (live w) \<and> epoch w < epoch_clock s \<and> wf_prefix s \<and>
      (\<forall>n\<in>set (live w). fst n = epoch w \<longrightarrow> snd n < next_seq w))"

definition superseded :: "db_writer \<Rightarrow> db_writer \<Rightarrow> prefix_state \<Rightarrow> bool" where
  "superseded w1 w2 s =
     (CLOUDMANIFEST s = Some (epoch w2) \<and> manifests s (epoch w2) = Some (live w2) \<and>
      epoch w1 \<noteq> epoch w2 \<and>
      (\<forall>n\<in>set (live w2). (fst n = epoch w1 \<longrightarrow> snd n < next_seq w1) \<and>
                           (fst n = epoch w2 \<longrightarrow> snd n < next_seq w2)))"

section \<open>Properties of the environment\<close>

lemmas mem_simps =
  mem_def mem_FileExists_def mem_DeleteFile_def mem_RenameFile_def mem_GetChildren_def
  mem_NewRandomAccessFile_def mem_Read_def mem_NewWritableFile_def mem_Append_def
  mem_GetFileSize_def mem_ListObjects_def mem_GetObject_def mem_PutObject_def
  mem_DeleteObject_def mem_CopyObject_def no_such_key_def no_entry_def keys_after_def
  store_def remove_def ends_with_def basename_def dirname_def an_env_def a_proc_def

lemmas env_simps =
  GetFileType_def on_world_def ListObjects_def GetObject_def PutObject_def DeleteObject_def
  CopyObject_def absent_error_def find_at_0_def sleep_for_milliseconds_def Let_def

lemmas file_simps =
  createFile_def NewWritableFile_def S3WritableFile_new_def S3WritableFile_Append_def
  S3WritableFile_Close_def NewRandomAccessFile_def posix_open_def CheckOption_def
  S3ReadableFile_Read_def FileExists_def PathExistsInS3_def DeleteFile_def DeletePathInS3_def

lemma ok_iff: "ok st \<longleftrightarrow> st = OK"
  by (cases st) simp_all

lemma CopyObject_logs:
  "s3_log (snd (CopyObject P bucket key source p)) =
     s3_log p @ [CopyObjectRequest bucket key source]"
  by (simp add: CopyObject_def split: prod.splits)

lemma on_world_log: "s3_log (snd (on_world f p)) = s3_log p"
  by (simp add: on_world_def split: prod.splits)

subsection \<open>Round trip of a data file\<close>

text \<open>
  Without \<open>keep_local_sst_files\<close> the bytes come back from the store: the file is written,
  closed (which uploads it and removes the local file), and read through
  \<^verbatim>\<open>S3ReadableFile\<close>. The deletion of the local copy in between finds nothing to delete.
\<close>

lemma CopyToFromS3_remote:
  "CopyToFromS3 mem (an_env False) ''/db/100000.sst'' bytes (a_proc [] []) =
     Some ((OK, bytes),
           (a_proc [] [(''/db/100000.sst'', bytes)])
             \<lparr>s3_log := [PutObjectRequest ''dbcloud'' ''/db/100000.sst'' bytes,
                         GetObjectRequest ''dbcloud'' ''/db/100000.sst'' 0 (length bytes)]\<rparr>)"
  by (simp add: CopyToFromS3_def file_simps env_simps mem_simps)

text \<open>
  With \<open>keep_local_sst_files\<close>, on every platform, opening a data file for reading is
  opening the local file: no \<^verbatim>\<open>S3ReadableFile\<close> is made and no request is sent.
\<close>

lemma NewRandomAccessFile_keep_local:
  assumes "IsSstFile P fname" and "keep_local_sst_files this"
  shows "NewRandomAccessFile P this fname options p = Some (posix_open P fname p)"
  using assms by (simp add: NewRandomAccessFile_def GetFileType_def CheckOption_def Let_def)

text \<open>
  C1. For every byte sequence B, writing B to a data file via \<^verbatim>\<open>NewWritableFile\<close>, closing
  it, deleting the local copy and reading the file back through \<^verbatim>\<open>NewRandomAccessFile\<close>
  yields exactly B: the remote object alone suffices. The code does not do that in the
  configuration of its own test \<^verbatim>\<open>CopyToFromS3\<close>, which sets \<open>keep_local_sst_files\<close>:
  \<^verbatim>\<open>NewRandomAccessFile\<close> then opens the local file only. Here the bytes
  \<^verbatim>\<open>0123456789\<close> are written and uploaded (the object is in the store at the end), the
  local copy is deleted, and the open fails with the error of the local filesystem.
\<close>

theorem CopyToFromS3_keep_local:
  "CopyToFromS3 mem (an_env True) ''/db/100000.sst'' ''0123456789'' (a_proc [] []) =
     Some ((IOError ''/db/100000.sst'' ''No such file or directory'', []),
           (a_proc [] [(''/db/100000.sst'', ''0123456789'')])
             \<lparr>s3_log := [PutObjectRequest ''dbcloud'' ''/db/100000.sst'' ''0123456789'']\<rparr>)"
  by (simp add: CopyToFromS3_def file_simps env_simps mem_simps)

subsection \<open>RenameFile\<close>

text \<open>
  In a release build, where \<^verbatim>\<open>assert(0)\<close> is compiled out, \<^verbatim>\<open>RenameFile\<close> goes by the class
  of the target path alone: for a target classified as a data file or as a log file it
  returns \<open>NotSupported\<close> and changes nothing (no copy, no delete, no request at all); for
  a target classified as neither it is the rename of the local filesystem and sends no
  request to the store. (With assertions on, the process aborts at \<^verbatim>\<open>assert(0)\<close> before
  either \<open>NotSupported\<close> is returned.)
\<close>

lemma RenameFile_by_target:
  "(IsSstFile P target \<or> IsLogFile P target \<longrightarrow>
      RenameFile P this src target p = (NotSupported src target, p)) \<and>
   (\<not> IsSstFile P target \<and> \<not> IsLogFile P target \<longrightarrow>
      RenameFile P this src target p = on_world (posix_RenameFile P src target) p \<and>
      s3_log (snd (RenameFile P this src target p)) = s3_log p)"
  by (simp add: RenameFile_def GetFileType_def Let_def on_world_log)

text \<open>
  C3. For every path classified as a data file or as a log file, \<^verbatim>\<open>RenameFile\<close> returns
  \<open>NotSupported\<close> and performs no copy and no delete; for every path classified as neither
  it renames via the local filesystem only. The code tests the class of the target and
  misses the source: the file renamed here is a data file (with its object in the store),
  its new name is not one, and \<^verbatim>\<open>RenameFile\<close> renames the local copy and answers \<open>OK\<close>,
  although its own comment says "Rename should never be called on sst files" and its log
  message calls the rejected file the "source sstfile". The object in the store keeps the
  old name.
\<close>

theorem RenameFile_data_source:
  "IsSstFile mem ''/db/000010.sst'' \<and>
   RenameFile mem (an_env True) ''/db/000010.sst'' ''/db/000010.bak''
       (a_proc [(''/db/000010.sst'', ''data'')] [(''/db/000010.sst'', ''data'')])
     = (OK, a_proc [(''/db/000010.bak'', ''data'')] [(''/db/000010.sst'', ''data'')])"
  by (simp add: RenameFile_def env_simps mem_simps)

text \<open>
  C9. The copy-object branch at the end of \<^verbatim>\<open>RenameFile\<close>, which would send a copy request
  with a blank bucket and a blank key, is unreachable: for every source and target every
  control path returns before it. The branch sends its request through \<open>CopyObject\<close>,
  which records it (\<open>CopyObject_logs\<close>); \<^verbatim>\<open>RenameFile\<close> never adds a request to the record,
  and its result is always one of the three early returns.
\<close>

theorem RenameFile_never_copies:
  "s3_log (snd (RenameFile P this src target p)) = s3_log p \<and>
   RenameFile P this src target p \<in>
     {on_world (posix_RenameFile P src target) p, (NotSupported src target, p)}"
  by (simp add: RenameFile_def GetFileType_def Let_def on_world_log)

theorem RenameFile_never_copies_witness:
  "s3_log (snd (RenameFile mem (an_env False) ''/db/000010.sst'' ''/db/000011.sst''
                  (a_proc [] [(''/db/000010.sst'', ''data'')]))) = []"
  using RenameFile_never_copies [of mem "an_env False" "''/db/000010.sst''" "''/db/000011.sst''"
          "a_proc [] [(''/db/000010.sst'', ''data'')]"]
  by (simp add: a_proc_def)

subsection \<open>Listing a directory\<close>

lemma push_keys_appends:
  "push_keys path objs result = (loop, result') \<Longrightarrow>
     \<exists>ks. result' = result @ ks \<and> (\<forall>k\<in>set ks. find_at_0 k path) \<and> (loop \<longrightarrow> ks = objs)"
proof (induction objs arbitrary: result)
  case Nil
  then show ?case by simp
next
  case (Cons keystr objs)
  show ?case
  proof (cases "find_at_0 keystr path")
    case False
    with Cons.prems show ?thesis by simp
  next
    case True
    with Cons.prems have "push_keys path objs (result @ [keystr]) = (loop, result')" by simp
    from Cons.IH[OF this] obtain ks where
      "result' = (result @ [keystr]) @ ks" "\<forall>k\<in>set ks. find_at_0 k path" "loop \<longrightarrow> ks = objs"
      by blast
    with True show ?thesis by (intro exI[of _ "keystr # ks"]) simp
  qed
qed

text \<open>
  What the listing from the store is, whenever it returns: the keys are appended to the
  result, each of them starts with the path, and the world is as before (only requests
  were sent).
\<close>

lemma GetChildrenFromS3_loop_keys:
  assumes "GetChildrenFromS3_loop P bucket path marker result p = Some ((st, result'), p')"
  shows "world p' = world p \<and> (\<exists>ks. result' = result @ ks \<and> (\<forall>k\<in>set ks. find_at_0 k path))"
proof -
  let ?Q = "\<lambda>x y. case x of (((((P', bucket'), path'), marker'), result0), p0) \<Rightarrow>
              (case y of ((st', result1), p1) \<Rightarrow>
                 world p1 = world (p0 :: 'a proc) \<and>
                 (\<exists>ks. result1 = result0 @ ks \<and> (\<forall>k\<in>set ks. find_at_0 k path')))"
  have "?Q (((((P, bucket), path), marker), result), p) ((st, result'), p')"
  proof (rule GetChildrenFromS3_loop.raw_induct[where Pa = ?Q, OF _ assms], goal_cases)
    case (1 f P bucket path marker result p y)
    obtain out q where lo: "ListObjects P bucket 50 path marker p = (out, q)"
      by (cases "ListObjects P bucket 50 path marker p")
    then have wq: "world q = world p" by (auto simp add: ListObjects_def)
    show ?case
    proof (cases out)
      case (Inl error)
      with 1(2) lo wq show ?thesis by (auto split: if_splits)
    next
      case (Inr res)
      obtain loop r' where pk: "push_keys path (Contents res) result = (loop, r')"
        by (cases "push_keys path (Contents res) result")
      from push_keys_appends[OF pk] obtain ks where
        ks: "r' = result @ ks" "\<forall>k\<in>set ks. find_at_0 k path" by blast
      show ?thesis
      proof (cases "IsTruncated res \<and> loop")
        case False
        with 1(2) lo Inr pk ks wq show ?thesis by (auto split: if_splits)
      next
        case True
        with 1(2) lo Inr pk have rec: "f P bucket path (NextMarker res) r' q = Some y" by simp
        obtain st1 r1 p1 where y: "y = ((st1, r1), p1)" by (cases y) auto
        from 1(1)[OF rec] y have "world p1 = world q"
          and "\<exists>ks'. r1 = r' @ ks' \<and> (\<forall>k\<in>set ks'. find_at_0 k path)" by auto
        then obtain ks' where "r1 = r' @ ks'" "\<forall>k\<in>set ks'. find_at_0 k path" by blast
        with ks have "r1 = result @ (ks @ ks')" "\<forall>k\<in>set (ks @ ks'). find_at_0 k path" by auto
        with \<open>world p1 = world q\<close> wq y show ?thesis by auto
      qed
    qed
  qed
  then show ?thesis by simp
qed

text \<open>
  The listing returns as soon as the markers of the service make progress: when some
  measure of the marker goes down with every truncated page.
\<close>

lemma GetChildrenFromS3_loop_returns:
  fixes f :: "string \<Rightarrow> nat"
  assumes progress: "\<And>marker res. s3_ListObjects P bucket 50 path marker w = Inr res \<Longrightarrow>
                       IsTruncated res \<Longrightarrow> f (NextMarker res) < f marker"
    and "world p = w"
  shows "\<exists>y. GetChildrenFromS3_loop P bucket path marker result p = Some y"
  using assms(2)
proof (induction "f marker" arbitrary: marker result p rule: less_induct)
  case less
  obtain out q where lo: "ListObjects P bucket 50 path marker p = (out, q)"
    by (cases "ListObjects P bucket 50 path marker p")
  then have wq: "world q = w" and out: "out = s3_ListObjects P bucket 50 path marker w"
    using less.prems by (auto simp add: ListObjects_def)
  show ?case
  proof (cases out)
    case (Inl error)
    with lo show ?thesis by (subst GetChildrenFromS3_loop.simps) simp
  next
    case (Inr res)
    obtain loop r' where pk: "push_keys path (Contents res) result = (loop, r')"
      by (cases "push_keys path (Contents res) result")
    show ?thesis
    proof (cases "IsTruncated res \<and> loop")
      case False
      with lo Inr pk show ?thesis by (subst GetChildrenFromS3_loop.simps) auto
    next
      case True
      with progress[of marker res] out Inr have "f (NextMarker res) < f marker" by simp
      from less.hyps[OF this wq] obtain y where
        "GetChildrenFromS3_loop P bucket path (NextMarker res) r' q = Some y" by blast
      with True lo Inr pk show ?thesis by (subst GetChildrenFromS3_loop.simps) simp
    qed
  qed
qed





subsection \<open>Existence and deletion of a data file\<close>

text \<open>
  Without \<open>keep_local_sst_files\<close> the existence of a data file is decided as the spec
  says: \<^verbatim>\<open>FileExists\<close> sends exactly one request, a get of 0 bytes at offset 0 of the
  object named by the path (never a list), and returns \<open>OK\<close> when the get succeeds,
  \<open>NotFound\<close> when the store answers that the object is absent, and \<open>IOError\<close> for any
  other failure. With \<open>keep_local_sst_files\<close> it is the answer of the local filesystem,
  and no request is sent.
\<close>

lemma FileExists_data_file:
  assumes "IsSstFile P fname"
  shows "(keep_local_sst_files this \<longrightarrow>
            FileExists P this fname p = Some (posix_FileExists P fname (world p), p)) \<and>
         (\<not> keep_local_sst_files this \<longrightarrow>
            (\<exists>st. FileExists P this fname p =
                    Some (st, p\<lparr>s3_log := s3_log p @
                                  [GetObjectRequest (GetBucket P (bucket_prefix this)) fname 0 0]\<rparr>) \<and>
                  (case s3_GetObject P (GetBucket P (bucket_prefix this)) fname 0 0 (world p) of
                     Inr bytes \<Rightarrow> st = OK
                   | Inl error \<Rightarrow>
                       if absent_error (ErrorType error) then st = NotFound fname (Message error)
                       else st = IOError fname (Message error))))"
  using assms
  by (auto simp add: FileExists_def PathExistsInS3_def S3ReadableFile_Read_def GetFileType_def
        GetObject_def Let_def split: sum.splits)

lemma FileExists_remote:
  "FileExists mem (an_env False) ''/db/000010.sst'' (a_proc [] [(''/db/000010.sst'', ''data'')])
     = Some (OK, (a_proc [] [(''/db/000010.sst'', ''data'')])
                   \<lparr>s3_log := [GetObjectRequest ''dbcloud'' ''/db/000010.sst'' 0 0]\<rparr>) \<and>
   FileExists mem (an_env False) ''/db/000011.sst'' (a_proc [] [(''/db/000010.sst'', ''data'')])
     = Some (NotFound ''/db/000011.sst'' ''The specified key does not exist.'',
             (a_proc [] [(''/db/000010.sst'', ''data'')])
                   \<lparr>s3_log := [GetObjectRequest ''dbcloud'' ''/db/000011.sst'' 0 0]\<rparr>)"
  by (simp add: FileExists_def PathExistsInS3_def S3ReadableFile_Read_def env_simps mem_simps)

text \<open>
  C5. For every path classified as a data file, \<^verbatim>\<open>FileExists\<close> decides existence by a
  zero-length ranged get (never by list): success exactly when the remote object is
  present, \<open>NotFound\<close> when it is absent. The code does not do that where
  \<open>keep_local_sst_files\<close> is set: \<^verbatim>\<open>FileExists\<close> then asks the local filesystem and never
  reaches \<^verbatim>\<open>PathExistsInS3\<close>, although \<^verbatim>\<open>PathExistsInS3\<close> is written for that very setting
  (it warns that the file "exists in S3 but does not exist locally. It will be served
  directly from S3"). Here an object that is in the store, with no local copy, does not
  exist for \<^verbatim>\<open>FileExists\<close>; a local file with no object in the store does; and no request
  is sent in either case.
\<close>

theorem FileExists_keep_local:
  "FileExists mem (an_env True) ''/db/000010.sst'' (a_proc [] [(''/db/000010.sst'', ''data'')])
     = Some (NotFound ''/db/000010.sst'' ''No such file or directory'',
             a_proc [] [(''/db/000010.sst'', ''data'')]) \<and>
   FileExists mem (an_env True) ''/db/000010.sst'' (a_proc [(''/db/000010.sst'', ''data'')] [])
     = Some (OK, a_proc [(''/db/000010.sst'', ''data'')] [])"
  by (simp add: FileExists_def env_simps mem_simps)

text \<open>
  C6, as stated (deleting an object that is absent from the store is a success), fails:
  the store answers that the key does not exist, and \<^verbatim>\<open>DeleteFile\<close> hands \<open>NotFound\<close> to
  its caller.
\<close>

theorem DeleteFile_absent_counterexample:
  "DeleteFile mem (an_env False) ''/db/000010.sst'' (a_proc [] [])
     = (NotFound ''/db/000010.sst'' ''The specified key does not exist.'',
        (a_proc [] [])\<lparr>s3_log := [DeleteObjectRequest ''dbcloud'' ''/db/000010.sst'']\<rparr>)"
  by (simp add: DeleteFile_def DeletePathInS3_def env_simps mem_simps)

text \<open>
  C6, amended. Deleting a data file sends one delete request for the object named by the
  path. When the store answers with an error, the caller receives it: \<open>NotFound\<close> when the
  error says that the bucket, the key or the resource is absent, \<open>IOError\<close> otherwise, and
  the local copy is left alone. When the store answers with success, the result is \<open>OK\<close>,
  or with \<open>keep_local_sst_files\<close> the result of deleting the local copy.
\<close>

theorem DeleteFile_data_file:
  assumes "IsSstFile P fname"
  shows "(case DeleteObject P (GetBucket P (bucket_prefix this)) fname p of
            (Inl error, p') \<Rightarrow>
              DeleteFile P this fname p =
                (if absent_error (ErrorType error) then NotFound fname (Message error)
                 else IOError fname (Message error), p')
          | (Inr u, p') \<Rightarrow>
              DeleteFile P this fname p =
                (if keep_local_sst_files this then on_world (posix_DeleteFile P fname) p'
                 else (OK, p')))"
  using assms
  by (auto simp add: DeleteFile_def DeletePathInS3_def GetFileType_def Let_def
        split: sum.splits prod.splits)

theorem DeleteFile_data_file_witness:
  "IsSstFile mem ''/db/000010.sst'' \<and>
   DeleteFile mem (an_env True) ''/db/000010.sst''
       (a_proc [(''/db/000010.sst'', ''data'')] [(''/db/000010.sst'', ''data'')])
     = (OK, (a_proc [] [])\<lparr>s3_log := [DeleteObjectRequest ''dbcloud'' ''/db/000010.sst'']\<rparr>) \<and>
   DeleteFile mem (an_env True) ''/db/000010.sst'' (a_proc [(''/db/000010.sst'', ''data'')] [])
     = (NotFound ''/db/000010.sst'' ''The specified key does not exist.'',
        (a_proc [(''/db/000010.sst'', ''data'')] [])
           \<lparr>s3_log := [DeleteObjectRequest ''dbcloud'' ''/db/000010.sst'']\<rparr>)"
  using DeleteFile_data_file [of mem "''/db/000010.sst''" "an_env True"
          "a_proc [(''/db/000010.sst'', ''data'')] [(''/db/000010.sst'', ''data'')]"]
        DeleteFile_data_file [of mem "''/db/000010.sst''" "an_env True"
          "a_proc [(''/db/000010.sst'', ''data'')] []"]
  by (simp add: env_simps mem_simps)

text \<open>
  C8. After \<open>delete-file(K)\<close> the file still exists at once, it is gone once the delay has
  elapsed, and a file created again before the deadline stays. The code has no delay:
  \<^verbatim>\<open>DeleteFile\<close> sends the delete request and unlinks the local copy on the spot. In the
  first round of the test \<^verbatim>\<open>DelayFileDeletion\<close> the deletion succeeds and the file does not
  exist immediately afterwards, with \<open>keep_local_sst_files\<close> (as in the test) and without;
  in the second round it does not exist either until it is created again.
\<close>

theorem DelayFileDeletion_at_once:
  "DelayFileDeletion mem (an_env True) ''/db/000010.sst'' False (a_proc [] []) =
     Some (OK, NotFound ''/db/000010.sst'' ''No such file or directory'',
               NotFound ''/db/000010.sst'' ''No such file or directory'') \<and>
   DelayFileDeletion mem (an_env False) ''/db/000010.sst'' False (a_proc [] []) =
     Some (OK, NotFound ''/db/000010.sst'' ''The specified key does not exist.'',
               NotFound ''/db/000010.sst'' ''The specified key does not exist.'') \<and>
   DelayFileDeletion mem (an_env True) ''/db/000010.sst'' True (a_proc [] []) =
     Some (OK, NotFound ''/db/000010.sst'' ''No such file or directory'', OK)"
  by (simp add: DelayFileDeletion_def file_simps env_simps mem_simps)

subsection \<open>Retry\<close>

lemma Retry_outcome_step:
  assumes fail: "\<not> ok (fst (func p))" and nexp: "\<not> expired P start (pause P func p)"
    and rest: "Retry_outcome P func start (pause P func p) k r"
  shows "Retry_outcome P func start p (Suc k) r"
proof -
  let ?f = "pause P func"
  have shift: "(?f ^^ Suc j) p = (?f ^^ j) (?f p)" for j
    by (simp add: funpow_swap1)
  have "\<not> ok (fst (func ((?f ^^ j) p))) \<and> \<not> expired P start ((?f ^^ Suc j) p)"
    if "j < Suc k" for j
  proof (cases j)
    case 0
    then show ?thesis using fail nexp by simp
  next
    case (Suc i)
    then have "i < k" using that by simp
    with rest have "\<not> ok (fst (func ((?f ^^ i) (?f p)))) \<and>
                    \<not> expired P start ((?f ^^ Suc i) (?f p))"
      unfolding Retry_outcome_def by blast
    then show ?thesis unfolding Suc by (simp add: shift del: funpow.simps)
  qed
  moreover have "if ok (fst (func ((?f ^^ Suc k) p)))
       then r = func ((?f ^^ Suc k) p)
       else expired P start ((?f ^^ Suc (Suc k)) p) \<and>
            r = (TimedOut, (?f ^^ Suc (Suc k)) p)"
    using rest unfolding Retry_outcome_def by (simp add: shift del: funpow.simps)
  ultimately show ?thesis unfolding Retry_outcome_def by blast
qed

text \<open>
  When the sum of the start and the retry period does not wrap, the deadline test is the
  comparison of the numbers.
\<close>

lemma expired_nat:
  "unat start + unat (retry_period_micros P) < 2 ^ 64 \<Longrightarrow>
     expired P start q \<longleftrightarrow>
       unat start + unat (retry_period_micros P) < unat (NowMicros P (world q))"
  by (simp add: expired_def word_less_nat_alt unat_add_lem[THEN iffD1])

text \<open>
  The loop returns, and with the outcome described, when the deadline does not wrap and,
  from every state that is not past the deadline, a failed attempt and its sleep move the
  clock on by at least 100000 microseconds without wrapping. The measure is the time left
  to the deadline.
\<close>

lemma Retry_loop_total:
  assumes budget: "unat start + unat (retry_period_micros P) < 2 ^ 64"
    and advance: "\<And>q. unat (NowMicros P (world q)) \<le> unat start + unat (retry_period_micros P) \<Longrightarrow>
                    unat (NowMicros P (world q)) + 100000
                      \<le> unat (NowMicros P (world (pause P func q)))"
    and early: "unat (NowMicros P (world p)) \<le> unat start + unat (retry_period_micros P)"
  shows "\<exists>k r. Retry_loop P func start p = Some r \<and> Retry_outcome P func start p k r"
  using early
proof (induction "Suc (unat start + unat (retry_period_micros P)) - unat (NowMicros P (world p))"
         arbitrary: p rule: less_induct)
  case less
  obtain stat p1 where f: "func p = (stat, p1)" by (cases "func p")
  show ?case
  proof (cases "ok stat")
    case True
    then have "Retry_loop P func start p = Some (stat, p1)"
      by (subst Retry_loop.simps) (simp add: f)
    moreover have "Retry_outcome P func start p 0 (stat, p1)"
      using True f by (simp add: Retry_outcome_def)
    ultimately show ?thesis by blast
  next
    case False
    let ?p2 = "pause P func p"
    have p2: "?p2 = sleep_for_milliseconds P 100 p1" by (simp add: pause_def f)
    show ?thesis
    proof (cases "expired P start ?p2")
      case True
      then have "Retry_loop P func start p = Some (TimedOut, ?p2)"
        using False by (subst Retry_loop.simps) (simp add: f p2 expired_def Let_def)
      moreover have "Retry_outcome P func start p 0 (TimedOut, ?p2)"
        using True False f by (simp add: Retry_outcome_def)
      ultimately show ?thesis by blast
    next
      case nexp: False
      have unfold: "Retry_loop P func start p = Retry_loop P func start ?p2"
        using False nexp by (subst Retry_loop.simps) (simp add: f p2 expired_def Let_def)
      have later: "unat (NowMicros P (world p)) + 100000 \<le> unat (NowMicros P (world ?p2))"
        using advance[OF less.prems] .
      have still: "unat (NowMicros P (world ?p2)) \<le> unat start + unat (retry_period_micros P)"
        using nexp by (simp add: expired_nat[OF budget])
      from later still
      have "Suc (unat start + unat (retry_period_micros P)) - unat (NowMicros P (world ?p2))
          < Suc (unat start + unat (retry_period_micros P)) - unat (NowMicros P (world p))"
        by linarith
      from less.hyps[OF this still] obtain k r where
        "Retry_loop P func start ?p2 = Some r" "Retry_outcome P func start ?p2 k r" by blast
      then show ?thesis
        using unfold Retry_outcome_step[of func p P start k r] False nexp f by auto
    qed
  qed
qed

lemma Retry_outcome_status:
  "Retry_outcome P func start p k r \<Longrightarrow>
     fst r = OK \<or> fst r = TimedOut \<and> expired P start (snd r)"
  by (cases "fst (func ((pause P func ^^ k) p))") (auto simp add: Retry_outcome_def split: if_splits)

text \<open>
  C7, as stated (non-transient errors surface immediately without retry; an operation
  still failing at the end of the budget surfaces its error), fails. With a budget of
  250 ms an operation that always fails with \<open>NotSupported\<close> is called three times (the
  file \<^verbatim>\<open>/calls\<close> holds one \<^verbatim>\<open>x\<close> per call), 300 ms go by, and the caller receives
  \<open>TimedOut\<close>, not the error of the operation.
\<close>

theorem Retry_nontransient_counterexample:
  "Retry (mem\<lparr>retry_period_micros := 250000\<rparr>) (flaky 5 (NotSupported ''op'' []))
         (a_proc [(''/calls'', [])] []) =
     Some (TimedOut, \<lparr>world = \<lparr>files = [(''/calls'', ''xxx'')], objects = [], clock = 300000\<rparr>,
                      s3_log = []\<rparr>)"
  by (simp add: Retry_def Retry_loop.simps flaky_def env_simps mem_simps)

text \<open>
  The deadline wraps: with the clock at 1000 and a retry period of \<open>2^64 - 1\<close> the sum
  is 999, which the clock has passed already, and an operation that would succeed at its
  second call is answered \<open>TimedOut\<close> after its first.
\<close>

lemma Retry_deadline_wraps:
  "Retry (mem\<lparr>retry_period_micros := 18446744073709551615\<rparr>) (flaky 1 (NotFound ''op'' []))
         \<lparr>world = \<lparr>files = [(''/calls'', [])], objects = [], clock = 1000\<rparr>, s3_log = []\<rparr> =
     Some (TimedOut, \<lparr>world = \<lparr>files = [(''/calls'', ''x'')], objects = [], clock = 101000\<rparr>,
                      s3_log = []\<rparr>)"
  by (simp add: Retry_def Retry_loop.simps flaky_def env_simps mem_simps)

text \<open>
  C7, amended. \<^verbatim>\<open>Retry\<close> makes no difference between kinds of failure: every status that
  is not ok is retried after a fixed sleep of 100 ms, until an attempt succeeds or until,
  after the sleep, the clock has passed the deadline, the start plus
  \<^verbatim>\<open>retry_period_micros\<close>; then the caller receives \<open>TimedOut\<close> in place of the error of the
  operation. So \<^verbatim>\<open>Retry\<close> returns \<open>OK\<close> or \<open>TimedOut\<close> and nothing else. This holds, and
  \<^verbatim>\<open>Retry\<close> does return, provided that the start plus \<^verbatim>\<open>retry_period_micros\<close> does not
  overflow 64 bits and that, from every state not past the deadline, a failed attempt and
  its sleep move the clock on by at least 100 ms without wrapping it.
\<close>

theorem Retry_until_ok_or_deadline:
  assumes "unat (NowMicros P (world p)) + unat (retry_period_micros P) < 2 ^ 64"
    and "\<And>q. unat (NowMicros P (world q))
                \<le> unat (NowMicros P (world p)) + unat (retry_period_micros P) \<Longrightarrow>
              unat (NowMicros P (world q)) + 100000
                \<le> unat (NowMicros P (world (pause P func q)))"
  shows "\<exists>k r. Retry P func p = Some r \<and>
               Retry_outcome P func (NowMicros P (world p)) p k r \<and>
               (fst r = OK \<or>
                fst r = TimedOut \<and>
                unat (NowMicros P (world p)) + unat (retry_period_micros P)
                  < unat (NowMicros P (world (snd r))))"
proof -
  from Retry_loop_total[OF assms(1) assms(2), of p] obtain k r where
    r: "Retry_loop P func (NowMicros P (world p)) p = Some r"
    and o: "Retry_outcome P func (NowMicros P (world p)) p k r" by auto
  from Retry_outcome_status[OF o] expired_nat[OF assms(1)]
  have "fst r = OK \<or>
        fst r = TimedOut \<and>
        unat (NowMicros P (world p)) + unat (retry_period_micros P)
          < unat (NowMicros P (world (snd r)))" by auto
  with r o show ?thesis unfolding Retry_def by blast
qed

text \<open>
  The witness: an operation that fails twice with \<open>InvalidArgument\<close> and then succeeds,
  under the default budget: the third attempt returns \<open>OK\<close> after two sleeps.
\<close>

theorem Retry_until_ok_or_deadline_witness:
  "unat (NowMicros mem (world (a_proc [(''/calls'', [])] []))) + unat (retry_period_micros mem)
     < 2 ^ 64 \<and>
   (\<exists>k r. Retry mem (flaky 2 (InvalidArgument ''op'')) (a_proc [(''/calls'', [])] []) = Some r \<and>
          Retry_outcome mem (flaky 2 (InvalidArgument ''op''))
             (NowMicros mem (world (a_proc [(''/calls'', [])] [])))
             (a_proc [(''/calls'', [])] []) k r \<and>
          (fst r = OK \<or>
           fst r = TimedOut \<and>
           unat (NowMicros mem (world (a_proc [(''/calls'', [])] []))) +
             unat (retry_period_micros mem) < unat (NowMicros mem (world (snd r))))) \<and>
   Retry mem (flaky 2 (InvalidArgument ''op'')) (a_proc [(''/calls'', [])] []) =
     Some (OK, \<lparr>world = \<lparr>files = [(''/calls'', ''xxx'')], objects = [], clock = 200000\<rparr>,
                s3_log = []\<rparr>)"
proof -
  let ?p = "a_proc [(''/calls'', [])] []"
  let ?f = "flaky 2 (InvalidArgument ''op'')"
  have budget: "unat (NowMicros mem (world ?p)) + unat (retry_period_micros mem) < 2 ^ 64"
    by (simp add: mem_def a_proc_def)
  have advance: "unat (NowMicros mem (world q)) + 100000
                   \<le> unat (NowMicros mem (world (pause mem ?f q)))"
    if "unat (NowMicros mem (world q))
          \<le> unat (NowMicros mem (world ?p)) + unat (retry_period_micros mem)" for q
  proof -
    from that have "unat (clock (world q)) \<le> 10000000" by (simp add: mem_def a_proc_def)
    then have "unat (clock (world q)) + 100000 \<le> unat (clock (world q) + 100000)"
      by (simp add: unat_add_lem[THEN iffD1])
    then show ?thesis
      by (simp add: pause_def sleep_for_milliseconds_def flaky_def mem_def mem_GetFileSize_def
            mem_Append_def on_world_def split: option.splits prod.splits)
  qed
  have run: "Retry mem ?f ?p =
     Some (OK, \<lparr>world = \<lparr>files = [(''/calls'', ''xxx'')], objects = [], clock = 200000\<rparr>,
                s3_log = []\<rparr>)"
    by (simp add: Retry_def Retry_loop.simps flaky_def env_simps mem_simps)
  from Retry_until_ok_or_deadline[of mem ?p ?f, OF budget advance] budget run
  show ?thesis by blast
qed

subsection \<open>The factory\<close>

text \<open>
  C10. The factory \<^verbatim>\<open>NewAwsEnv\<close> never hands out an invalid environment: whenever the
  bucket creation, the stream creation or the start of the tailer fails during
  construction (or the Kinesis client is null) it returns null, and only then; so every
  environment obtained from the factory satisfies \<^verbatim>\<open>IsValid().ok()\<close>, the predicate
  that the operations assert on entry.
\<close>

theorem NewAwsEnv_valid:
  "(\<forall>env. fst (NewAwsEnv P bucket keep p) = Some env \<longrightarrow> IsValid env = OK) \<and>
   (fst (NewAwsEnv P bucket keep p) = None \<longleftrightarrow>
      (case on_world (CreateBucketInS3 P bucket) p of
         (st1, p1) \<Rightarrow>
           \<not> ok st1 \<or> \<not> make_kinesis_client P (world p1) \<or>
           (case on_world (CreateStream P bucket) p1 of
              (st3, p3) \<Rightarrow> \<not> ok st3 \<or> \<not> ok (KinesisSystem_status P (world p3)))))"
  by (auto simp add: NewAwsEnv_def AwsEnv_new_def IsValid_def Let_def ok_iff
        split: prod.splits if_splits)

theorem NewAwsEnv_valid_witness:
  "fst (NewAwsEnv mem ''dbcloud'' True (a_proc [] [])) = Some (an_env True) \<and>
   IsValid (an_env True) = OK \<and>
   fst (NewAwsEnv (mem\<lparr>KinesisSystem_status := mem_FileExists ''/cache''\<rparr>)
          ''dbcloud'' True (a_proc [] [])) = None"
  using NewAwsEnv_valid [of mem "''dbcloud''" True "a_proc [] []"]
        NewAwsEnv_valid [of "mem\<lparr>KinesisSystem_status := mem_FileExists ''/cache''\<rparr>"
          "''dbcloud''" True "a_proc [] []"]
  by (simp add: NewAwsEnv_def AwsEnv_new_def IsValid_def env_simps mem_simps)

section \<open>Properties of the cloud-manifest coordinator\<close>

lemma read_files_cong:
  "(\<And>n. n \<in> set names \<Longrightarrow> df n = df' n) \<Longrightarrow> read_files df names k = read_files df' names k"
  by (induction names) (auto split: option.splits)

lemma open_writer_owns:
  assumes wf: "wf_prefix s" and op: "open_writer s = Inr (w, s')"
  shows "owns w s' \<and> CLOUDMANIFEST s' = Some (epoch w) \<and> epoch w = epoch_clock s \<and>
         (case CLOUDMANIFEST s of None \<Rightarrow> live w = []
          | Some t \<Rightarrow> manifests s t = Some (live w))"
proof -
  obtain listed where inh: "(case CLOUDMANIFEST s of None \<Rightarrow> listed = []
          | Some t \<Rightarrow> manifests s t = Some listed)"
    and w: "w = \<lparr>epoch = epoch_clock s, live = listed, next_seq = 0\<rparr>"
    and s': "s' = s\<lparr>epoch_clock := Suc (epoch_clock s),
                     manifests := (manifests s)(epoch_clock s \<mapsto> listed),
                     CLOUDMANIFEST := Some (epoch_clock s)\<rparr>"
    using op by (auto simp add: open_writer_def Let_def split: option.splits)
  have old: "\<forall>n\<in>set listed. fst n < epoch_clock s"
    using inh wf by (auto simp add: wf_prefix_def split: option.splits)
  have "wf_prefix s'"
    unfolding wf_prefix_def
  proof (intro allI impI ballI)
    fix m fs n assume "manifests s' m = Some fs" "n \<in> set fs"
    then have "fst n < epoch_clock s"
      using old wf by (cases "m = epoch_clock s") (auto simp add: s' wf_prefix_def)
    then show "fst n < epoch_clock s'" by (simp add: s')
  qed
  moreover have "\<forall>n\<in>set (live w). fst n = epoch w \<longrightarrow> snd n < next_seq w"
    using old by (auto simp add: w)
  ultimately have "owns w s'" by (simp add: owns_def w s')
  then show ?thesis using inh by (auto simp add: w s' split: option.splits)
qed

lemma put_flush_owns:
  assumes "owns w s" "put_flush w k v s = (w', s')"
  shows "owns w' s' \<and> epoch w' = epoch w \<and> CLOUDMANIFEST s' = CLOUDMANIFEST s \<and>
         epoch_clock s' = epoch_clock s"
proof -
  let ?name = "(epoch w, next_seq w)"
  have w': "w' = w\<lparr>live := ?name # live w, next_seq := Suc (next_seq w)\<rparr>"
    and s': "s' = s\<lparr>data_files := (data_files s)(?name \<mapsto> (k, v)),
                     manifests := (manifests s)(epoch w \<mapsto> ?name # live w)\<rparr>"
    using assms(2) by (auto simp add: put_flush_def Let_def)
  from assms(1) have m: "manifests s (epoch w) = Some (live w)" and e: "epoch w < epoch_clock s"
    and wf: "wf_prefix s" and sq: "\<forall>n\<in>set (live w). fst n = epoch w \<longrightarrow> snd n < next_seq w"
    by (auto simp add: owns_def)
  have "wf_prefix s'"
    unfolding wf_prefix_def
  proof (intro allI impI ballI)
    fix m' fs n assume a: "manifests s' m' = Some fs" "n \<in> set fs"
    show "fst n < epoch_clock s'"
    proof (cases "m' = epoch w")
      case True
      with a have "n = ?name \<or> n \<in> set (live w)" by (auto simp add: s')
      then show ?thesis using e m wf by (auto simp add: s' wf_prefix_def)
    next
      case False
      with a wf show ?thesis by (auto simp add: s' wf_prefix_def)
    qed
  qed
  moreover have "\<forall>n\<in>set (live w'). fst n = epoch w' \<longrightarrow> snd n < next_seq w'"
    using sq by (auto simp add: w' less_SucI)
  ultimately show ?thesis using e by (simp add: owns_def w' s')
qed

lemma writes_owns:
  "owns w s \<Longrightarrow> CLOUDMANIFEST s = Some (epoch w) \<Longrightarrow> writes w s before = (w', s') \<Longrightarrow>
     owns w' s' \<and> CLOUDMANIFEST s' = Some (epoch w') \<and> epoch w' = epoch w"
proof (induction before arbitrary: w s)
  case Nil
  then show ?case by simp
next
  case (Cons kv rest)
  obtain k v where kv: "kv = (k, v)" by (cases kv)
  obtain wa sa where pf: "put_flush w k v s = (wa, sa)" by (cases "put_flush w k v s")
  from put_flush_owns[OF Cons.prems(1) pf] Cons.prems(2)
  have a: "owns wa sa" "CLOUDMANIFEST sa = Some (epoch wa)" "epoch wa = epoch w" by auto
  from Cons.prems(3) have "writes wa sa rest = (w', s')" by (simp add: kv pf)
  from Cons.IH[OF a(1) a(2) this] a(3) show ?case by simp
qed

lemma superseded_reader:
  "superseded w1 w2 s \<Longrightarrow> reader_get s k = read_files (data_files s) (live w2) k"
  by (simp add: superseded_def reader_get_def)

text \<open>
  A write of the superseded writer lands in a data file that the owner's engine-manifest
  does not list, so the reader's answer is the same before and after.
\<close>

lemma step_W1:
  assumes "superseded w1 w2 s" "put_flush w1 k' v' s = (w1', s')"
  shows "superseded w1' w2 s' \<and> reader_get s' k = reader_get s k"
proof -
  let ?name = "(epoch w1, next_seq w1)"
  have w': "w1' = w1\<lparr>live := ?name # live w1, next_seq := Suc (next_seq w1)\<rparr>"
    and s': "s' = s\<lparr>data_files := (data_files s)(?name \<mapsto> (k', v')),
                     manifests := (manifests s)(epoch w1 \<mapsto> ?name # live w1)\<rparr>"
    using assms(2) by (auto simp add: put_flush_def Let_def)
  have fresh: "?name \<notin> set (live w2)"
    using assms(1) by (auto simp add: superseded_def)
  have sup: "superseded w1' w2 s'"
    using assms(1) by (auto simp add: superseded_def w' s' less_SucI)
  have "read_files (data_files s') (live w2) k = read_files (data_files s) (live w2) k"
    using fresh by (intro read_files_cong) (auto simp add: s')
  with sup assms(1) show ?thesis by (simp add: superseded_reader)
qed

lemma step_W2:
  assumes "superseded w1 w2 s" "put_flush w2 k' v' s = (w2', s')"
  shows "superseded w1 w2' s' \<and>
         reader_get s' k = (if k' = k then Inr (Some v') else reader_get s k)"
proof -
  let ?name = "(epoch w2, next_seq w2)"
  have w': "w2' = w2\<lparr>live := ?name # live w2, next_seq := Suc (next_seq w2)\<rparr>"
    and s': "s' = s\<lparr>data_files := (data_files s)(?name \<mapsto> (k', v')),
                     manifests := (manifests s)(epoch w2 \<mapsto> ?name # live w2)\<rparr>"
    using assms(2) by (auto simp add: put_flush_def Let_def)
  have fresh: "?name \<notin> set (live w2)"
    using assms(1) by (auto simp add: superseded_def)
  have sup: "superseded w1 w2' s'"
    using assms(1) by (auto simp add: superseded_def w' s' less_SucI)
  have "read_files (data_files s') (live w2) k = read_files (data_files s) (live w2) k"
    using fresh by (intro read_files_cong) (auto simp add: s')
  then have "read_files (data_files s') (live w2') k =
             (if k' = k then Inr (Some v') else read_files (data_files s) (live w2) k)"
    by (simp add: w' s')
  with sup assms(1) show ?thesis by (simp add: superseded_reader)
qed

lemma interleave_reader:
  assumes "superseded w1 w2 s" "interleave w1 w2 s schedule = (w1', w2', s')"
  shows "reader_get s' k =
           (case last_write W2 k schedule of Some v \<Rightarrow> Inr (Some v) | None \<Rightarrow> reader_get s k)"
  using assms
proof (induction schedule arbitrary: w1 w2 s)
  case Nil
  then show ?case by simp
next
  case (Cons step rest)
  obtain who k' v' where step: "step = (who, k', v')" by (cases step)
  show ?case
  proof (cases who)
    case W1
    obtain w1a sa where pf: "put_flush w1 k' v' s = (w1a, sa)" by (cases "put_flush w1 k' v' s")
    from step_W1[OF Cons.prems(1) pf] have sup: "superseded w1a w2 sa"
      and same: "reader_get sa k = reader_get s k" by auto
    from Cons.prems(2) have "interleave w1a w2 sa rest = (w1', w2', s')"
      by (simp add: step W1 pf)
    from Cons.IH[OF sup this] same show ?thesis
      by (simp add: step W1 split: option.splits)
  next
    case W2
    obtain w2a sa where pf: "put_flush w2 k' v' s = (w2a, sa)" by (cases "put_flush w2 k' v' s")
    from step_W2[OF Cons.prems(1) pf] have sup: "superseded w1 w2a sa"
      and upd: "reader_get sa k = (if k' = k then Inr (Some v') else reader_get s k)" by auto
    from Cons.prems(2) have "interleave w1 w2a sa rest = (w1', w2', s')"
      by (simp add: step W2 pf)
    from Cons.IH[OF sup this] upd show ?thesis
      by (simp add: step W2 split: option.splits)
  qed
qed

text \<open>
  When W2 has opened, W1 is superseded, and the reader's answer is still the one of the
  prefix that W2 found: W2 inherits the engine-manifest of W1.
\<close>

lemma two_writers_superseded:
  assumes wf: "wf_prefix s0" and o1: "open_writer s0 = Inr (w1, s1)"
    and b: "writes w1 s1 before = (w1', s1')" and o2: "open_writer s1' = Inr (w2, s2)"
  shows "superseded w1' w2 s2 \<and> reader_get s2 k = reader_get s1' k"
proof -
  from open_writer_owns[OF wf o1] have "owns w1 s1" "CLOUDMANIFEST s1 = Some (epoch w1)" by auto
  from writes_owns[OF this b] have ow: "owns w1' s1'"
    and ptr: "CLOUDMANIFEST s1' = Some (epoch w1')" by auto
  then have wf': "wf_prefix s1'" and lt: "epoch w1' < epoch_clock s1'"
    and m1: "manifests s1' (epoch w1') = Some (live w1')"
    and sq: "\<forall>n\<in>set (live w1'). fst n = epoch w1' \<longrightarrow> snd n < next_seq w1'"
    by (auto simp add: owns_def)
  from open_writer_owns[OF wf' o2] ptr m1
  have o: "owns w2 s2" and p2: "CLOUDMANIFEST s2 = Some (epoch w2)"
    and e2: "epoch w2 = epoch_clock s1'" and inh: "live w2 = live w1'" by auto
  have df: "data_files s2 = data_files s1'"
    using o2 by (auto simp add: open_writer_def Let_def split: option.splits sum.splits)
  have old: "\<forall>n\<in>set (live w2). fst n < epoch w2"
    using wf' m1 inh e2 by (auto simp add: wf_prefix_def)
  have "superseded w1' w2 s2"
    using o p2 lt e2 sq inh old by (auto simp add: superseded_def owns_def)
  moreover have "reader_get s1' k = read_files (data_files s1') (live w1') k"
    using ptr m1 by (simp add: reader_get_def)
  ultimately show ?thesis by (simp add: superseded_reader df inh)
qed

text \<open>
  C2. For writers W1 and W2 that open the same shared prefix in that order and each write
  a key K, any reader that opens the prefix afterwards observes W2's value for K, and the
  writes that W1 issues after W2 opened are never observed by that reader. For every key
  the reader's answer is the value of W2's last write to it, and for a key that W2 did
  not write it is the answer of the prefix as W2 found it: the right-hand side does not
  mention what W1 wrote after W2 opened.
\<close>

theorem last_writer_wins:
  assumes "wf_prefix s0" and "two_writers s0 before schedule = Inr (s1', s3)"
  shows "reader_get s3 k =
           (case last_write W2 k schedule of
              Some v \<Rightarrow> Inr (Some v)
            | None \<Rightarrow> reader_get s1' k)"
proof -
  from assms(2) obtain w1 s1 w1' w2 s2 w1'' w2'' where
    o1: "open_writer s0 = Inr (w1, s1)" and b: "writes w1 s1 before = (w1', s1')"
    and o2: "open_writer s1' = Inr (w2, s2)"
    and i: "interleave w1' w2 s2 schedule = (w1'', w2'', s3)"
    by (auto simp add: two_writers_def split: sum.splits prod.splits)
  from two_writers_superseded[OF assms(1) o1 b o2, of k]
  have sup: "superseded w1' w2 s2" and eq: "reader_get s2 k = reader_get s1' k" by auto
  from interleave_reader[OF sup i, of k] eq show ?thesis by (simp split: option.splits)
qed

text \<open>
  The witness, on a fresh prefix: W1 writes K, W2 opens and writes K, then W1 writes K
  again and another key. The reader finds W2's value for K and does not find the other
  key.
\<close>

theorem last_writer_wins_witness:
  "wf_prefix empty_prefix \<and>
   two_writers empty_prefix [(''K'', ''first'')]
      [(W2, ''K'', ''second''), (W1, ''K'', ''stale''), (W1, ''ShouldNotBeApplied'', [])]
     = Inr (fst (projr (two_writers empty_prefix [(''K'', ''first'')]
              [(W2, ''K'', ''second''), (W1, ''K'', ''stale''), (W1, ''ShouldNotBeApplied'', [])])),
            snd (projr (two_writers empty_prefix [(''K'', ''first'')]
              [(W2, ''K'', ''second''), (W1, ''K'', ''stale''), (W1, ''ShouldNotBeApplied'', [])]))) \<and>
   reader_get (snd (projr (two_writers empty_prefix [(''K'', ''first'')]
      [(W2, ''K'', ''second''), (W1, ''K'', ''stale''), (W1, ''ShouldNotBeApplied'', [])]))) ''K''
     = Inr (Some ''second'') \<and>
   reader_get (snd (projr (two_writers empty_prefix [(''K'', ''first'')]
      [(W2, ''K'', ''second''), (W1, ''K'', ''stale''), (W1, ''ShouldNotBeApplied'', [])])))
      ''ShouldNotBeApplied''
     = Inr None"
proof -
  let ?r = "two_writers empty_prefix [(''K'', ''first'')]
      [(W2, ''K'', ''second''), (W1, ''K'', ''stale''), (W1, ''ShouldNotBeApplied'', [])]"
  have wf: "wf_prefix empty_prefix"
    by (simp add: wf_prefix_def empty_prefix_def)
  have run: "?r = Inr (fst (projr ?r), snd (projr ?r))"
    by (simp add: two_writers_def open_writer_def put_flush_def empty_prefix_def Let_def)
  have found: "reader_get (fst (projr ?r)) ''ShouldNotBeApplied'' = Inr None"
    by (simp add: two_writers_def open_writer_def put_flush_def reader_get_def
          empty_prefix_def Let_def)
  from last_writer_wins[OF wf run, of "''K''"] last_writer_wins[OF wf run, of "''ShouldNotBeApplied''"]
    wf run found
  show ?thesis by simp
qed

end
